theory Spec2Isabelle
  imports Main
begin

section \<open>JavaScript values used by the extension\<close>

text \<open>
  Strings are \<open>string\<close>; a property that may be absent, \<open>undefined\<close> or \<open>null\<close> is an
  \<open>option\<close>. JavaScript truthiness of a string: every string but the empty one.
\<close>

definition truthy :: "string \<Rightarrow> bool" where
  "truthy s = (s \<noteq> [])"

fun truthy_opt :: "string option \<Rightarrow> bool" where
  "truthy_opt None = False"
| "truthy_opt (Some s) = truthy s"

text \<open>\<open>a || b\<close> on optional strings, and \<open>a || "literal"\<close>.\<close>

definition js_or :: "string option \<Rightarrow> string option \<Rightarrow> string option" where
  "js_or a b = (if truthy_opt a then a else b)"

definition or_else :: "string option \<Rightarrow> string \<Rightarrow> string" where
  "or_else a d = (case a of Some s \<Rightarrow> (if truthy s then s else d) | None \<Rightarrow> d)"

text \<open>Decimal rendering of a number inside a template literal.\<close>

definition digit :: "nat \<Rightarrow> char" where
  "digit d = (''0123456789'' ! d)"

fun string_of_nat :: "nat \<Rightarrow> string" where
  "string_of_nat n = (if n < 10 then [digit n] else string_of_nat (n div 10) @ [digit (n mod 10)])"

declare string_of_nat.simps [simp del]

text \<open>
  A thrown \<open>Error\<close> (or \<open>DOMException\<close>): its name and its message.
  \<open>error_toString\<close> is \<open>Error.prototype.toString\<close>; \<open>error_text\<close> is the
  expression \<open>error?.message || error\<close> inside a template literal.
\<close>

datatype js_error = JsError (err_name: string) (err_message: string)

definition error_toString :: "js_error \<Rightarrow> string" where
  "error_toString e =
     (if err_message e = [] then err_name e
      else if err_name e = [] then err_message e
      else err_name e @ '': '' @ err_message e)"

definition error_text :: "js_error \<Rightarrow> string" where
  "error_text e = (if truthy (err_message e) then err_message e else error_toString e)"

section \<open>Data model\<close>

datatype session_status = Recording | Processing | Done | Failed

record session =
  id_session :: string
  title :: "string option"
  created_at :: string
  status :: session_status
  session_report :: "string option"
  audio_base64 :: "string option"
  user_id :: "string option"
  user_name :: "string option"
  has_audio :: bool
  audio_mime_type :: "string option"

record profile =
  profile_id :: string
  profile_name :: string

text \<open>
  The patch object handed to \<open>updateSession\<close>: a key that is absent is \<open>None\<close>.
  \<open>audio_base64\<close> is tested against \<open>undefined\<close>, so it has three shapes: absent
  (\<open>None\<close>), \<open>null\<close> (\<open>Some None\<close>) and a string.
\<close>

record patch =
  p_status :: "session_status option"
  p_title :: "string option"
  p_session_report :: "string option"
  p_audio_base64 :: "string option option"
  p_has_audio :: "bool option"
  p_audio_mime_type :: "string option"

definition empty_patch :: patch where
  "empty_patch = \<lparr>p_status = None, p_title = None, p_session_report = None,
     p_audio_base64 = None, p_has_audio = None, p_audio_mime_type = None\<rparr>"

text \<open>
  The state the service worker reads and writes: the keys of \<open>chrome.storage.local\<close>
  (\<open>sessions\<close>, \<open>activeSessionId\<close>, \<open>userProfile\<close>, and one entry
  \<open>AUDIO_STORAGE_PREFIX + id\<close> per session, kept here as a map from the session id),
  and the worker's in-memory set \<open>autoOpenedReportSessions\<close>. The storage calls
  themselves are taken to succeed; the \<open>catch\<close> branches around them only log.
\<close>

record worker =
  sessions :: "session list"
  activeSessionId :: "string option"
  userProfile :: "profile option"
  sessionAudio :: "string \<rightharpoonup> string"
  autoOpenedReportSessions :: "string set"

definition init_worker :: worker where
  "init_worker = \<lparr>sessions = [], activeSessionId = None, userProfile = None,
     sessionAudio = Map.empty, autoOpenedReportSessions = {}\<rparr>"

section \<open>Audio blob cache (service\_worker.js, lines 97-131)\<close>

definition persistSessionAudioBlob :: "string \<Rightarrow> string \<Rightarrow> worker \<Rightarrow> worker" where
  "persistSessionAudioBlob sessionId audioBase64 w =
     (if \<not> truthy sessionId \<or> \<not> truthy audioBase64 then w
      else w\<lparr>sessionAudio := (sessionAudio w)(sessionId \<mapsto> audioBase64)\<rparr>)"

definition clearSessionAudioBlob :: "string \<Rightarrow> worker \<Rightarrow> worker" where
  "clearSessionAudioBlob sessionId w =
     (if \<not> truthy sessionId then w
      else w\<lparr>sessionAudio := (sessionAudio w)(sessionId := None)\<rparr>)"

definition loadSessionAudioBlob :: "string \<Rightarrow> worker \<Rightarrow> string option" where
  "loadSessionAudioBlob sessionId w =
     (if \<not> truthy sessionId then None
      else (case sessionAudio w sessionId of
              Some a \<Rightarrow> (if truthy a then Some a else None)
            | None \<Rightarrow> None))"

section \<open>Session records (service\_worker.js, lines 133-136 and 247-286)\<close>

definition getSessionById :: "string \<Rightarrow> worker \<Rightarrow> session option" where
  "getSessionById sessionId w = find (\<lambda>s. id_session s = sessionId) (sessions w)"

fun findIndex :: "('a \<Rightarrow> bool) \<Rightarrow> 'a list \<Rightarrow> nat option" where
  "findIndex P [] = None"
| "findIndex P (x # xs) = (if P x then Some 0 else map_option Suc (findIndex P xs))"

text \<open>\<open>{ ...existing, ...rest }\<close>: every key present in the patch overwrites.\<close>

definition apply_rest :: "patch \<Rightarrow> session \<Rightarrow> session" where
  "apply_rest p s =
     s\<lparr>status := (case p_status p of Some v \<Rightarrow> v | None \<Rightarrow> status s),
       title := (case p_title p of Some v \<Rightarrow> Some v | None \<Rightarrow> title s),
       session_report := (case p_session_report p of Some v \<Rightarrow> Some v | None \<Rightarrow> session_report s),
       has_audio := (case p_has_audio p of Some v \<Rightarrow> v | None \<Rightarrow> has_audio s),
       audio_mime_type :=
         (case p_audio_mime_type p of Some v \<Rightarrow> Some v | None \<Rightarrow> audio_mime_type s)\<rparr>"

text \<open>The two assignments to \<open>existing.has_audio\<close> (lines 274-282).\<close>

definition audio_part :: "patch \<Rightarrow> session \<Rightarrow> session" where
  "audio_part p s =
     (case p_audio_base64 p of None \<Rightarrow> s | Some a \<Rightarrow> s\<lparr>has_audio := truthy_opt a\<rparr>)"

definition updateSession :: "string \<Rightarrow> patch \<Rightarrow> worker \<Rightarrow> worker" where
  "updateSession i p w =
     (case findIndex (\<lambda>s. id_session s = i) (sessions w) of
        None \<Rightarrow> w
      | Some idx \<Rightarrow>
          (let existing = sessions w ! idx;
               w1 = (case p_audio_base64 p of
                       None \<Rightarrow> w
                     | Some a \<Rightarrow>
                         (if truthy_opt a then persistSessionAudioBlob i (the a) w
                          else clearSessionAudioBlob i w))
           in w1\<lparr>sessions := (sessions w)[idx := apply_rest p (audio_part p existing)]\<rparr>))"

text \<open>
  The values the platform draws for one \<open>START_RECORDING\<close>: the two
  \<open>crypto.randomUUID()\<close> results and the clock.
\<close>

record entropy =
  uuid_profile :: string
  year :: nat
  uuid_session :: string
  now_iso :: string

definition getUserProfile :: "entropy \<Rightarrow> worker \<Rightarrow> profile \<times> worker" where
  "getUserProfile ent w =
     (let fresh = \<lparr>profile_id = uuid_profile ent,
                    profile_name = ''User-'' @ string_of_nat (year ent)\<rparr>
      in case userProfile w of
           Some p \<Rightarrow>
             (if truthy (profile_id p) \<and> truthy (profile_name p) then (p, w)
              else (fresh, w\<lparr>userProfile := Some fresh\<rparr>))
         | None \<Rightarrow> (fresh, w\<lparr>userProfile := Some fresh\<rparr>))"

definition newSessionMeta :: "entropy \<Rightarrow> profile \<Rightarrow> session" where
  "newSessionMeta ent p =
     \<lparr>id_session = uuid_session ent, title = Some ''Session'', created_at = now_iso ent,
      status = Recording, session_report = None, audio_base64 = None,
      user_id = Some (profile_id p), user_name = Some (profile_name p),
      has_audio = False, audio_mime_type = Some ''audio/webm''\<rparr>"

definition pushSession :: "session \<Rightarrow> worker \<Rightarrow> worker" where
  "pushSession s w = w\<lparr>sessions := sessions w @ [s]\<rparr>"

section \<open>Messages and responses\<close>

datatype response = RespOk | RespOkSession string | RespErr string

text \<open>The \<open>START_RECORDING\<close> branch of the listener (lines 291-303).\<close>

definition handleStartRecording :: "entropy \<Rightarrow> worker \<Rightarrow> response \<times> worker" where
  "handleStartRecording ent w =
     (let (p, w1) = getUserProfile ent w;
          s = newSessionMeta ent p;
          w2 = pushSession s w1;
          w3 = w2\<lparr>activeSessionId := Some (id_session s)\<rparr>
      in (RespOkSession (id_session s), w3))"

text \<open>The \<open>STOP_RECORDING\<close> branch (lines 305-323).\<close>

definition handleStopRecording :: "worker \<Rightarrow> response \<times> worker" where
  "handleStopRecording w =
     (if \<not> truthy_opt (activeSessionId w) then (RespErr ''No active session.'', w)
      else
        (let a = the (activeSessionId w);
             w1 = updateSession a (empty_patch\<lparr>p_status := Some Processing\<rparr>) w;
             w2 = w1\<lparr>activeSessionId := None\<rparr>
         in (RespOkSession a, w2)))"

section \<open>The network, as the worker sees it\<close>

text \<open>
  \<open>fetchWithTimeout\<close> either rejects (the timer's abort gives an \<open>AbortError\<close>, a
  connection failure a \<open>TypeError\<close>) or resolves to a response with its \<open>ok\<close> flag,
  its status code and its body; a body that \<open>response.json()\<close> cannot parse is
  \<open>None\<close>.
\<close>

datatype 'b http_response = HttpResponse (resp_ok: bool) (resp_status: nat) (resp_json: "'b option")

datatype 'r fetch_outcome = FetchThrows js_error | FetchReturns 'r

record analysis_data =
  d_title :: "string option"
  d_session_report :: "string option"
  d_error :: "string option"
  d_status :: "string option"

definition empty_data :: analysis_data where
  "empty_data = \<lparr>d_title = None, d_session_report = None, d_error = None, d_status = None\<rparr>"

record audio_body =
  ab_audio_base64 :: "string option"
  ab_mime_type :: "string option"

text \<open>The analysis job: the argument of \<open>requestBackendAnalysis\<close> and of the
  offscreen document's \<open>runBackendAnalysis\<close>.\<close>

record analysis_job =
  j_sessionId :: string
  j_audioBase64 :: string
  j_mimeType :: string
  j_userId :: "string option"
  j_userName :: "string option"
  j_durationMinutes :: "int option"

text \<open>
  The environment of one run: the analysis endpoint, the per-session audio endpoint
  keyed by user id and session id, whether \<open>chrome.offscreen.hasDocument\<close> exists, and
  the error with which creating or messaging the offscreen document fails, if it does.
\<close>

record env =
  analyze :: "analysis_job \<Rightarrow> analysis_data http_response fetch_outcome"
  session_audio :: "string \<Rightarrow> string \<Rightarrow> audio_body http_response fetch_outcome"
  hasOffscreen :: bool
  offscreen_fault :: "js_error option"

definition requestBackendAnalysis :: "env \<Rightarrow> analysis_job \<Rightarrow> js_error + analysis_data" where
  "requestBackendAnalysis e job =
     (case analyze e job of
        FetchThrows err \<Rightarrow> Inl err
      | FetchReturns response \<Rightarrow>
          (let data = (case resp_json response of Some d \<Rightarrow> d | None \<Rightarrow> empty_data)
           in if \<not> resp_ok response
              then Inl (JsError ''Error''
                     (or_else (d_error data) (''HTTP '' @ string_of_nat (resp_status response))))
              else Inr data))"

definition fetchSessionAudioFromBackend :: "env \<Rightarrow> string option \<Rightarrow> string \<Rightarrow> audio_body option" where
  "fetchSessionAudioFromBackend e userId sessionId =
     (if \<not> truthy_opt userId \<or> \<not> truthy sessionId then None
      else (case session_audio e (the userId) sessionId of
              FetchThrows err \<Rightarrow> None
            | FetchReturns resp \<Rightarrow> (if \<not> resp_ok resp then None else resp_json resp)))"

section \<open>Resolving audio and running the job (lines 154-245)\<close>

definition DEFAULT_MIME :: string where
  "DEFAULT_MIME = ''audio/webm''"

text \<open>The source's report literals are Persian; each is named here and stands for the
  literal of the line given.\<close>

definition NO_AUDIO_REPORT :: string where
  \<comment> \<open>line 189: the audio file for the analysis is not available\<close>
  "NO_AUDIO_REPORT = ''[fa] audio file for analysis is not available.''"

definition INVALID_OUTPUT_REPORT :: string where
  \<comment> \<open>lines 216 and 358: the model sent no valid output\<close>
  "INVALID_OUTPUT_REPORT = ''[fa] the model sent no valid output.''"

definition ANALYSIS_ERROR_PREFIX :: string where
  \<comment> \<open>lines 224 and 347: error while analysing the session\<close>
  "ANALYSIS_ERROR_PREFIX = ''[fa] error in session analysis: ''"

definition DISPATCH_ERROR_PREFIX :: string where
  \<comment> \<open>line 242: error while starting the analysis\<close>
  "DISPATCH_ERROR_PREFIX = ''[fa] error starting analysis: ''"

definition OFFSCREEN_STATUS_PREFIX :: string where
  \<comment> \<open>offscreen document, generic message for a non-success status: error code\<close>
  "OFFSCREEN_STATUS_PREFIX = ''[fa] error code ''"

definition ensureAudioForSession ::
  "env \<Rightarrow> session \<Rightarrow> string option \<Rightarrow> string option \<Rightarrow> worker
     \<Rightarrow> string option \<times> string \<times> worker" where
  "ensureAudioForSession e s providedAudio mimeType w =
     (if truthy_opt providedAudio
      then (providedAudio, or_else (js_or mimeType (audio_mime_type s)) DEFAULT_MIME, w)
      else
        (case loadSessionAudioBlob (id_session s) w of
           Some cached \<Rightarrow> (Some cached, or_else (audio_mime_type s) DEFAULT_MIME, w)
         | None \<Rightarrow>
             (case fetchSessionAudioFromBackend e (user_id s) (id_session s) of
                Some downloaded \<Rightarrow>
                  (if truthy_opt (ab_audio_base64 downloaded)
                   then
                     (let a = the (ab_audio_base64 downloaded);
                          m = or_else (ab_mime_type downloaded) DEFAULT_MIME;
                          w1 = persistSessionAudioBlob (id_session s) a w;
                          w2 = updateSession (id_session s)
                                 (empty_patch\<lparr>p_has_audio := Some True,
                                    p_audio_mime_type := Some m\<rparr>) w1
                      in (Some a, m, w2))
                   else (None, or_else (js_or mimeType (audio_mime_type s)) DEFAULT_MIME, w))
              | None \<Rightarrow> (None, or_else (js_or mimeType (audio_mime_type s)) DEFAULT_MIME, w))))"

definition openReportTab :: "string \<Rightarrow> worker \<Rightarrow> worker" where
  "openReportTab sessionId w =
     (if \<not> truthy sessionId \<or> sessionId \<in> autoOpenedReportSessions w then w
      else w\<lparr>autoOpenedReportSessions := insert sessionId (autoOpenedReportSessions w)\<rparr>)"

text \<open>The patch written when a result arrives (lines 211-217 and 353-359);
  \<open>fallbackTitle\<close> is \<open>session.title\<close> in the job and absent in the listener.\<close>

definition result_patch :: "analysis_data \<Rightarrow> string option \<Rightarrow> patch" where
  "result_patch result fallbackTitle =
     (let isError = (d_status result = Some ''error'')
      in empty_patch\<lparr>
           p_status := Some (if isError then Failed else Done),
           p_title := Some (or_else (js_or (d_title result) fallbackTitle) ''Session Report''),
           p_session_report :=
             Some (or_else (js_or (d_session_report result) (d_error result))
                     (if isError then INVALID_OUTPUT_REPORT else []))\<rparr>)"

definition failed_patch :: "string \<Rightarrow> patch" where
  "failed_patch report = empty_patch\<lparr>p_status := Some Failed, p_session_report := Some report\<rparr>"

text \<open>The payload of \<open>OFFSCREEN_ANALYSIS_COMPLETE\<close> and its branch of the listener
  (lines 337-367).\<close>

record complete_payload =
  ac_sessionId :: "string option"
  ac_result :: "analysis_data option"
  ac_error :: "string option"

definition handleAnalysisComplete :: "complete_payload \<Rightarrow> worker \<Rightarrow> response \<times> worker" where
  "handleAnalysisComplete pl w =
     (if \<not> truthy_opt (ac_sessionId pl) then (RespErr ''Missing sessionId.'', w)
      else
        (let sessionId = the (ac_sessionId pl)
         in if truthy_opt (ac_error pl)
            then (RespOk,
                  updateSession sessionId
                    (failed_patch (ANALYSIS_ERROR_PREFIX @ the (ac_error pl))) w)
            else
              (let result = (case ac_result pl of Some r \<Rightarrow> r | None \<Rightarrow> empty_data);
                   isError = (d_status result = Some ''error'');
                   w1 = updateSession sessionId (result_patch result None) w;
                   w2 = (if \<not> isError \<and> truthy_opt (d_session_report result)
                         then openReportTab sessionId w1 else w1)
               in (RespOk, w2))))"

section \<open>The offscreen document (its \<open>runBackendAnalysis\<close> and listener)\<close>

definition runBackendAnalysis :: "env \<Rightarrow> analysis_job \<Rightarrow> js_error + analysis_data" where
  "runBackendAnalysis e job =
     (if \<not> truthy (j_sessionId job) \<or> \<not> truthy (j_audioBase64 job)
      then Inl (JsError ''Error'' ''Missing audio payload for analysis'')
      else
        (case analyze e (job\<lparr>j_durationMinutes := None\<rparr>) of
           FetchThrows err \<Rightarrow> Inl err
         | FetchReturns response \<Rightarrow>
             (let data = (case resp_json response of Some d \<Rightarrow> d | None \<Rightarrow> empty_data)
              in if \<not> resp_ok response
                 then Inl (JsError ''Error''
                        (or_else (d_error data)
                           (OFFSCREEN_STATUS_PREFIX @ string_of_nat (resp_status response))))
                 else Inr \<lparr>d_title = Some (or_else (d_title data) ''Session Report''),
                          d_session_report =
                            Some (or_else (js_or (d_session_report data) (d_error data)) []),
                          d_error = None,
                          d_status = Some (or_else (d_status data) ''ok'')\<rparr>)))"

text \<open>
  The offscreen listener on \<open>OFFSCREEN_ANALYZE_SESSION\<close>: it reports to the worker with
  \<open>OFFSCREEN_ANALYSIS_COMPLETE\<close>, which the worker's listener handles before the
  offscreen document answers the original message.
\<close>

definition offscreenAnalyzeSession :: "env \<Rightarrow> analysis_job \<Rightarrow> worker \<Rightarrow> response \<times> worker" where
  "offscreenAnalyzeSession e job w =
     (case runBackendAnalysis e job of
        Inr result \<Rightarrow>
          (RespOk,
           snd (handleAnalysisComplete
                  \<lparr>ac_sessionId = Some (j_sessionId job), ac_result = Some result,
                   ac_error = None\<rparr> w))
      | Inl err \<Rightarrow>
          (RespErr (error_text err),
           snd (handleAnalysisComplete
                  \<lparr>ac_sessionId = Some (j_sessionId job), ac_result = None,
                   ac_error = Some (error_text err)\<rparr> w)))"

text \<open>\<open>dispatchOffscreenAnalysis\<close> (lines 33-52): \<open>None\<close> when the promise resolves,
  the error when it rejects.\<close>

definition dispatchOffscreenAnalysis :: "env \<Rightarrow> analysis_job \<Rightarrow> worker \<Rightarrow> js_error option \<times> worker" where
  "dispatchOffscreenAnalysis e job w =
     (case offscreen_fault e of
        Some err \<Rightarrow> (Some err, w)
      | None \<Rightarrow>
          (case offscreenAnalyzeSession e job w of
             (RespOk, w1) \<Rightarrow> (None, w1)
           | (RespOkSession x, w1) \<Rightarrow> (None, w1)
           | (RespErr m, w1) \<Rightarrow>
               (Some (JsError ''Error''
                        (if truthy m then m else ''Offscreen document rejected analysis job'')),
                w1)))"

section \<open>\<open>processSessionAudioJob\<close> (lines 174-245)\<close>

text \<open>The payload of \<open>PROCESS_SESSION_AUDIO\<close>. \<open>durationMinutes\<close> is a number that
  is only handed on to the request; \<open>isRegeneration\<close> is sent by both regenerate
  buttons and read nowhere.\<close>

record process_payload =
  sessionId :: "string option"
  audioBase64 :: "string option"
  mimeType :: "string option"
  durationMinutes :: "int option"
  isRegeneration :: "bool option"

text \<open>
  The job up to the point where the analysis call starts (lines 175-198): the store
  after it is what every other context sees while the call is in flight. The result
  is the job to run, or \<open>None\<close> when the function has returned.
\<close>

definition prepareJob :: "env \<Rightarrow> process_payload \<Rightarrow> worker \<Rightarrow> (analysis_job \<times> session) option \<times> worker" where
  "prepareJob e pl w =
     (case sessionId pl of
        None \<Rightarrow> (None, w)
      | Some sid \<Rightarrow>
          (case getSessionById sid w of
             None \<Rightarrow> (None, w)
           | Some s \<Rightarrow>
               (let (readyAudio, resolvedMime, w1) =
                      ensureAudioForSession e s (audioBase64 pl) (mimeType pl) w
                in if \<not> truthy_opt readyAudio
                   then (None, updateSession sid (failed_patch NO_AUDIO_REPORT) w1)
                   else
                     (let w2 = updateSession sid
                                 (empty_patch\<lparr>p_status := Some Processing,
                                    p_audio_base64 := Some readyAudio,
                                    p_audio_mime_type := Some resolvedMime\<rparr>) w1;
                          w3 = w2\<lparr>autoOpenedReportSessions :=
                                    autoOpenedReportSessions w2 - {sid}\<rparr>
                      in (Some (\<lparr>j_sessionId = sid, j_audioBase64 = the readyAudio,
                                  j_mimeType = resolvedMime, j_userId = user_id s,
                                  j_userName = user_name s,
                                  j_durationMinutes = durationMinutes pl\<rparr>, s), w3)))))"

text \<open>The rest of the job (lines 200-245): the call in the worker itself when there
  is no offscreen API, the dispatch to the offscreen document otherwise.\<close>

definition analyzeJob :: "env \<Rightarrow> analysis_job \<Rightarrow> session \<Rightarrow> worker \<Rightarrow> worker" where
  "analyzeJob e job s w =
     (let sid = j_sessionId job
      in if \<not> hasOffscreen e
         then
           (case requestBackendAnalysis e job of
              Inr result \<Rightarrow>
                (let isError = (d_status result = Some ''error'');
                     w1 = updateSession sid (result_patch result (title s)) w
                 in if \<not> isError \<and> truthy_opt (d_session_report result)
                    then openReportTab sid w1 else w1)
            | Inl err \<Rightarrow>
                updateSession sid (failed_patch (ANALYSIS_ERROR_PREFIX @ error_text err)) w)
         else
           (case dispatchOffscreenAnalysis e job w of
              (None, w1) \<Rightarrow> w1
            | (Some err, w1) \<Rightarrow>
                updateSession sid (failed_patch (DISPATCH_ERROR_PREFIX @ error_text err)) w1))"

definition processSessionAudioJob :: "env \<Rightarrow> process_payload \<Rightarrow> worker \<Rightarrow> worker" where
  "processSessionAudioJob e pl w =
     (case prepareJob e pl w of
        (None, w1) \<Rightarrow> w1
      | (Some (job, s), w1) \<Rightarrow> analyzeJob e job s w1)"

section \<open>The worker's message listener (lines 288-402)\<close>

record report_payload =
  rr_sessionId :: "string option"
  rr_title :: "string option"
  rr_sessionReport :: "string option"
  rr_status :: "string option"
  rr_audioBase64 :: "string option option"
  rr_hasAudio :: "bool option"

datatype msg =
    START_RECORDING
  | STOP_RECORDING
  | PROCESS_SESSION_AUDIO process_payload
  | OFFSCREEN_ANALYSIS_COMPLETE complete_payload
  | SESSION_REPORT_READY report_payload
  | OTHER_ACTION string

definition handleProcessSessionAudio :: "env \<Rightarrow> process_payload \<Rightarrow> worker \<Rightarrow> response \<times> worker" where
  "handleProcessSessionAudio e pl w =
     (if \<not> truthy_opt (sessionId pl) then (RespErr ''Missing sessionId.'', w)
      else (RespOk, processSessionAudioJob e pl w))"

definition handleSessionReportReady :: "report_payload \<Rightarrow> worker \<Rightarrow> response \<times> worker" where
  "handleSessionReportReady pl w =
     (if \<not> truthy_opt (rr_sessionId pl) then (RespErr ''Missing sessionId.'', w)
      else
        (let resolvedStatus = (if rr_status pl = Some ''error'' then Failed else Done);
             p0 = empty_patch\<lparr>p_status := Some resolvedStatus,
                    p_title := Some (or_else (rr_title pl) ''Session Report''),
                    p_session_report := Some (or_else (rr_sessionReport pl) [])\<rparr>;
             p1 = (case rr_hasAudio pl of Some b \<Rightarrow> p0\<lparr>p_has_audio := Some b\<rparr> | None \<Rightarrow> p0);
             p2 = (case rr_audioBase64 pl of
                     None \<Rightarrow> p1
                   | Some a \<Rightarrow>
                       (let p = p1\<lparr>p_audio_base64 := Some a\<rparr>
                        in case rr_hasAudio pl of
                             Some b \<Rightarrow> p
                           | None \<Rightarrow> p\<lparr>p_has_audio := Some (truthy_opt a)\<rparr>))
         in (RespOk, updateSession (the (rr_sessionId pl)) p2 w)))"

text \<open>
  One message handled to its end. The job that \<open>PROCESS_SESSION_AUDIO\<close> starts runs
  after the response has been sent; here the handler returns the store the job leaves.
\<close>

fun onMessage :: "env \<Rightarrow> entropy \<Rightarrow> msg \<Rightarrow> worker \<Rightarrow> response \<times> worker" where
  "onMessage e ent START_RECORDING w = handleStartRecording ent w"
| "onMessage e ent STOP_RECORDING w = handleStopRecording w"
| "onMessage e ent (PROCESS_SESSION_AUDIO pl) w = handleProcessSessionAudio e pl w"
| "onMessage e ent (OFFSCREEN_ANALYSIS_COMPLETE pl) w = handleAnalysisComplete pl w"
| "onMessage e ent (SESSION_REPORT_READY pl) w = handleSessionReportReady pl w"
| "onMessage e ent (OTHER_ACTION a) w = (RespErr ''Unknown action.'', w)"

section \<open>Concrete stores used to exercise the theorems\<close>

definition ex_ent :: entropy where
  "ex_ent = \<lparr>uuid_profile = ''u1'', year = 2025, uuid_session = ''s1'',
     now_iso = ''2025-01-01T00:00:00.000Z''\<rparr>"

definition ex_env :: env where
  "ex_env = \<lparr>analyze = (\<lambda>j. FetchThrows (JsError ''TypeError'' ''Failed to fetch'')),
     session_audio = (\<lambda>u i. FetchReturns (HttpResponse False 404 None)),
     hasOffscreen = False, offscreen_fault = None\<rparr>"

definition ex_session :: session where
  "ex_session = \<lparr>id_session = ''s1'', title = Some ''Session'',
     created_at = ''2025-01-01T00:00:00.000Z'', status = Recording, session_report = None,
     audio_base64 = None, user_id = Some ''u1'', user_name = Some ''User-2025'',
     has_audio = False, audio_mime_type = Some ''audio/webm''\<rparr>"

definition w_recording :: worker where
  "w_recording = \<lparr>sessions = [ex_session], activeSessionId = Some ''s1'',
     userProfile = Some \<lparr>profile_id = ''u1'', profile_name = ''User-2025''\<rparr>,
     sessionAudio = Map.empty, autoOpenedReportSessions = {}\<rparr>"

definition ex_env_remote :: env where
  "ex_env_remote = \<lparr>analyze = (\<lambda>j. FetchThrows (JsError ''TypeError'' ''Failed to fetch'')),
     session_audio = (\<lambda>u i. FetchReturns (HttpResponse True 200
        (Some \<lparr>ab_audio_base64 = Some ''QUJD'', ab_mime_type = Some ''audio/ogg''\<rparr>))),
     hasOffscreen = False, offscreen_fault = None\<rparr>"

definition ex_submit :: process_payload where
  "ex_submit = \<lparr>sessionId = Some ''s1'', audioBase64 = Some ''QUJD'', mimeType = None,
     durationMinutes = None, isRegeneration = None\<rparr>"

definition ex_anon_session :: session where
  "ex_anon_session = ex_session\<lparr>user_id := None\<rparr>"

definition ex_done :: session where
  "ex_done = ex_session\<lparr>status := Done, title := Some ''Weekly sync'',
     session_report := Some ''## Summary''\<rparr>"

definition w_done :: worker where
  "w_done = \<lparr>sessions = [ex_done], activeSessionId = None,
     userProfile = Some \<lparr>profile_id = ''u1'', profile_name = ''User-2025''\<rparr>,
     sessionAudio = Map.empty, autoOpenedReportSessions = {}\<rparr>"

definition ex_regen :: process_payload where
  "ex_regen = \<lparr>sessionId = Some ''s1'', audioBase64 = None, mimeType = None,
     durationMinutes = None, isRegeneration = Some True\<rparr>"

definition ex_job :: analysis_job where
  "ex_job = \<lparr>j_sessionId = ''s1'', j_audioBase64 = ''QUJD'', j_mimeType = ''audio/webm'',
     j_userId = Some ''u1'', j_userName = Some ''User-2025'', j_durationMinutes = None\<rparr>"

definition w_processing :: worker where
  "w_processing = \<lparr>sessions = [ex_session\<lparr>status := Processing, has_audio := True\<rparr>],
     activeSessionId = Some ''s1'',
     userProfile = Some \<lparr>profile_id = ''u1'', profile_name = ''User-2025''\<rparr>,
     sessionAudio = [''s1'' \<mapsto> ''QUJD''], autoOpenedReportSessions = {}\<rparr>"

definition ex_env_500 :: env where
  "ex_env_500 = ex_env\<lparr>analyze := (\<lambda>j. FetchReturns (HttpResponse False 500 None))\<rparr>"

definition ex_env_off_abort :: env where
  "ex_env_off_abort = ex_env\<lparr>hasOffscreen := True,
     analyze := (\<lambda>j. FetchThrows (JsError ''AbortError'' ''signal is aborted without reason''))\<rparr>"

definition ex_env_off_503 :: env where
  "ex_env_off_503 = ex_env\<lparr>hasOffscreen := True,
     analyze := (\<lambda>j. FetchReturns (HttpResponse False 503
        (Some (empty_data\<lparr>d_error := Some ''quota exceeded''\<rparr>))))\<rparr>"

section \<open>Reachable stores and what the worker's writes preserve\<close>

text \<open>
  Every write of a listener branch other than start and stop goes through
  \<open>updateSession\<close> with a patch of one of a few shapes, or touches neither the
  sessions nor the active pointer. \<open>good_patch\<close> collects the shapes the source
  writes: a status is never set back to recording, and a terminal status comes with a
  report. \<open>evolves w w'\<close> says that \<open>w'\<close> comes from \<open>w\<close> by such writes.
\<close>

definition good_patch :: "patch \<Rightarrow> bool" where
  "good_patch p =
     (case p_status p of
        None \<Rightarrow> p_session_report p = None
      | Some Recording \<Rightarrow> False
      | Some Processing \<Rightarrow> True
      | Some Done \<Rightarrow> p_session_report p \<noteq> None
      | Some Failed \<Rightarrow> p_session_report p \<noteq> None)"

inductive evolves :: "worker \<Rightarrow> worker \<Rightarrow> bool" where
  same: "evolves w w"
| upd: "evolves w w1 \<Longrightarrow> good_patch p \<Longrightarrow> evolves w (updateSession i p w1)"
| side: "evolves w w1 \<Longrightarrow> sessions w2 = sessions w1 \<Longrightarrow>
         activeSessionId w2 = activeSessionId w1 \<Longrightarrow> evolves w w2"

definition report_ok :: "session \<Rightarrow> bool" where
  "report_ok s = ((status s = Done \<or> status s = Failed \<longrightarrow> session_report s \<noteq> None) \<and>
                  (status s = Recording \<longrightarrow> session_report s = None))"

definition recording_ids :: "worker \<Rightarrow> string set" where
  "recording_ids w = id_session ` {s \<in> set (sessions w). status s = Recording}"

text \<open>
  The stores the worker produces from the empty store when its handlers run one at a
  time: by handling a message to its end, and the store a job leaves while its analysis
  call is in flight.
\<close>

inductive reachable :: "worker \<Rightarrow> bool" where
  init: "reachable init_worker"
| handled: "reachable w \<Longrightarrow> reachable (snd (onMessage e ent m w))"
| in_flight: "reachable w \<Longrightarrow> truthy_opt (sessionId pl) \<Longrightarrow>
              reachable (snd (prepareJob e pl w))"

text \<open>
  \<open>single_active\<close>: session ids are distinct and every recording session is the one
  that \<open>activeSessionId\<close> names.
\<close>

definition single_active :: "worker \<Rightarrow> bool" where
  "single_active w =
     (distinct (map id_session (sessions w)) \<and>
      (\<forall>s \<in> set (sessions w). status s = Recording \<longrightarrow> activeSessionId w = Some (id_session s)))"

text \<open>
  The handlers are asynchronous: \<open>updateSession\<close> reads the whole \<open>sessions\<close> array,
  and writes the whole array back after an \<open>await\<close> (lines 269 and 284), so the write
  of one handler can land on a store that another handler has changed since the read.
  \<open>updateSessionFrom seen i p w\<close> is that write: computed from the store \<open>seen\<close> at
  the read, landing on the store \<open>w\<close>. \<open>w_lost_stop\<close> is the store left when a stop
  of \<open>s1\<close> and the completion of \<open>s0\<close> both read \<open>w_two_sessions\<close>, the stop
  writes first, the completion writes second, and the stop then removes the pointer.
\<close>

definition updateSessionFrom :: "worker \<Rightarrow> string \<Rightarrow> patch \<Rightarrow> worker \<Rightarrow> worker" where
  "updateSessionFrom seen i p w =
     (case findIndex (\<lambda>s. id_session s = i) (sessions seen) of
        None \<Rightarrow> w
      | Some idx \<Rightarrow>
          (let existing = sessions seen ! idx;
               w1 = (case p_audio_base64 p of
                       None \<Rightarrow> w
                     | Some a \<Rightarrow>
                         (if truthy_opt a then persistSessionAudioBlob i (the a) w
                          else clearSessionAudioBlob i w))
           in w1\<lparr>sessions := (sessions seen)[idx := apply_rest p (audio_part p existing)]\<rparr>))"

definition ex_session0 :: session where
  "ex_session0 = ex_session\<lparr>id_session := ''s0'', status := Processing\<rparr>"

definition w_two_sessions :: worker where
  "w_two_sessions = w_recording\<lparr>sessions := [ex_session0, ex_session]\<rparr>"

definition ex_result :: analysis_data where
  "ex_result = \<lparr>d_title = Some ''Weekly sync'', d_session_report = Some ''## Summary'',
     d_error = None, d_status = Some ''ok''\<rparr>"

definition ex_complete :: complete_payload where
  "ex_complete = \<lparr>ac_sessionId = Some ''s0'', ac_result = Some ex_result, ac_error = None\<rparr>"

definition w_lost_stop :: worker where
  "w_lost_stop =
     (openReportTab ''s0''
        (updateSessionFrom w_two_sessions ''s0'' (result_patch ex_result None)
           (updateSessionFrom w_two_sessions ''s1'' (empty_patch\<lparr>p_status := Some Processing\<rparr>)
              w_two_sessions)))\<lparr>activeSessionId := None\<rparr>"

definition ex_ent2 :: entropy where
  "ex_ent2 = ex_ent\<lparr>uuid_session := ''s2''\<rparr>"

definition w_two_starts :: worker where
  "w_two_starts = snd (onMessage ex_env ex_ent2 START_RECORDING w_recording)"

definition ex_report_ready :: report_payload where
  "ex_report_ready = \<lparr>rr_sessionId = Some ''s1'', rr_title = Some ''Weekly sync'',
     rr_sessionReport = Some ''## Summary'', rr_status = Some ''ok'',
     rr_audioBase64 = None, rr_hasAudio = None\<rparr>"

definition w_stopped :: worker where
  "w_stopped = w_recording\<lparr>sessions := [ex_session\<lparr>status := Processing\<rparr>],
     activeSessionId := None\<rparr>"

definition w_regen :: worker where
  "w_regen = snd (prepareJob ex_env ex_submit w_done)"

definition is_recording :: "session \<Rightarrow> bool" where
  "is_recording s = (status s = Recording)"

section \<open>The popup (the second part of config.js)\<close>

text \<open>
  What the popup keeps in memory between two events: the flags and references declared
  at the top of the script. \<open>recorder\<close> says whether a \<open>MediaRecorder\<close> is held. A
  stream is known by the ids of its tracks; \<open>getUserMedia\<close> is asked for audio only, so
  the microphone stream is its list of audio tracks.
\<close>

record display_stream =
  d_video :: "string list"
  d_audio :: "string list"

datatype 'a acquired = Rejected js_error | Granted 'a

record media =
  getUserMedia :: "string list acquired"
  getDisplayMedia :: "display_stream acquired"

record popup =
  isRecording :: bool
  recorder :: bool
  currentSessionId :: "string option"
  micStreamRef :: "string list option"
  displayStreamRef :: "display_stream option"
  legacyAudioMigrationDone :: bool

text \<open>\<open>migrateLegacySessionAudio\<close> (lines 146-162): the loop over the cloned
  collection, then the write when a record was changed, then the flag.\<close>

definition migrate_one :: "session \<Rightarrow> session" where
  "migrate_one s = s\<lparr>has_audio := True, audio_base64 := None\<rparr>"

fun migrate_loop :: "session list \<Rightarrow> worker \<Rightarrow> session list \<times> worker \<times> bool" where
  "migrate_loop [] w = ([], w, False)"
| "migrate_loop (s # ss) w =
     (if truthy_opt (audio_base64 s)
      then (let w1 = persistSessionAudioBlob (id_session s) (the (audio_base64 s)) w;
                (ss1, w2, modified) = migrate_loop ss w1
            in (migrate_one s # ss1, w2, True))
      else (let (ss1, w2, modified) = migrate_loop ss w
            in (s # ss1, w2, modified)))"

definition migrateLegacySessionAudio :: "session list \<Rightarrow> popup \<times> worker \<Rightarrow> popup \<times> worker" where
  "migrateLegacySessionAudio ss pw =
     (case pw of (p, w) \<Rightarrow>
        if legacyAudioMigrationDone p then (p, w)
        else
          (let (cloned, w1, modified) = migrate_loop ss w;
               w2 = (if modified then w1\<lparr>sessions := cloned\<rparr> else w1)
           in (p\<lparr>legacyAudioMigrationDone := True\<rparr>, w2)))"

text \<open>The pass as \<open>refreshSessions\<close> runs it: on the collection just read from the
  store (lines 236-240).\<close>

definition migration_pass :: "popup \<times> worker \<Rightarrow> popup \<times> worker" where
  "migration_pass pw = migrateLegacySessionAudio (sessions (snd pw)) pw"

definition refreshSessions :: "popup \<times> worker \<Rightarrow> popup \<times> worker" where
  "refreshSessions pw =
     (let active = activeSessionId (snd pw);
          (p1, w1) = migration_pass pw
      in (p1\<lparr>isRecording := truthy_opt active\<rparr>, w1))"

definition carries_audio :: "session \<Rightarrow> bool" where
  "carries_audio s = truthy_opt (audio_base64 s)"

definition ex_legacy :: session where
  "ex_legacy = ex_done\<lparr>audio_base64 := Some ''QUJD''\<rparr>"

definition w_legacy :: worker where
  "w_legacy = w_done\<lparr>sessions := [ex_legacy]\<rparr>"

definition w_migrated :: worker where
  "w_migrated = w_done\<lparr>sessions := [ex_done\<lparr>has_audio := True\<rparr>],
     sessionAudio := [''s1'' \<mapsto> ''QUJD'']\<rparr>"

definition p_fresh :: popup where
  "p_fresh = \<lparr>isRecording = False, recorder = False, currentSessionId = None,
     micStreamRef = None, displayStreamRef = None, legacyAudioMigrationDone = False\<rparr>"

text \<open>What the user sees and what the popup does to the devices and the worker, in
  the order it happens.\<close>

datatype ui_event =
    Alert string
  | TrackStopped string
  | Sent msg response
  | RecorderStarted
  | RecorderStopRequested

definition START_FAILED_ALERT :: string where
  \<comment> \<open>line 475: starting the session failed\<close>
  "START_FAILED_ALERT = ''[fa] starting the session failed.''"

definition NO_AUDIO_SOURCE_ALERT :: string where
  \<comment> \<open>line 540: no audio source is available, enable Share audio\<close>
  "NO_AUDIO_SOURCE_ALERT = ''[fa] error: no audio source is available.''"

definition ACCESS_DENIED_ALERT :: string where
  \<comment> \<open>line 656: access to the screen or the microphone was denied\<close>
  "ACCESS_DENIED_ALERT = ''[fa] error: access to screen or microphone was denied.''"

definition ERROR_ALERT_PREFIX :: string where
  \<comment> \<open>line 658\<close>
  "ERROR_ALERT_PREFIX = ''[fa] error: ''"

definition SESSION_NOT_FOUND_ALERT :: string where
  \<comment> \<open>line 420: the session was not found\<close>
  "SESSION_NOT_FOUND_ALERT = ''[fa] the session was not found.''"

definition AUDIO_UNAVAILABLE_ALERT :: string where
  \<comment> \<open>line 426: the audio of this session is not available and was not found on the server\<close>
  "AUDIO_UNAVAILABLE_ALERT = ''[fa] the audio of this session is not available.''"

definition REGEN_NOT_STARTED :: string where
  \<comment> \<open>line 442: the re-analysis did not start\<close>
  "REGEN_NOT_STARTED = ''[fa] re-analysis did not start.''"

definition REGEN_ERROR_PREFIX :: string where
  \<comment> \<open>line 452: error in re-analysing the session\<close>
  "REGEN_ERROR_PREFIX = ''[fa] error in re-analysis: ''"

definition display_tracks :: "display_stream \<Rightarrow> string list" where
  "display_tracks d = d_video d @ d_audio d"

text \<open>The click handler of the record button after the worker has answered the start
  (lines 479-663): the microphone (its failure is caught), the display stream (its
  failure goes to the outer \<open>catch\<close>), the check for an audio track, the recorder.\<close>

definition captureAfterStart ::
  "env \<Rightarrow> entropy \<Rightarrow> media \<Rightarrow> popup \<times> worker \<Rightarrow> ui_event list \<times> popup \<times> worker" where
  "captureAfterStart e ent md pw =
     (case pw of (p, w) \<Rightarrow>
        (let mic = (case getUserMedia md of Granted ts \<Rightarrow> Some ts | Rejected err \<Rightarrow> None);
             p1 = p\<lparr>micStreamRef := mic\<rparr>
         in case getDisplayMedia md of
              Rejected err \<Rightarrow>
                (let (r, w1) = onMessage e ent STOP_RECORDING w;
                     (p2, w2) = refreshSessions (p1, w1)
                 in ([Alert (if err_name err = ''NotAllowedError'' then ACCESS_DENIED_ALERT
                             else ERROR_ALERT_PREFIX @ error_text err),
                      Sent STOP_RECORDING r], p2, w2))
            | Granted d \<Rightarrow>
                (let p2 = p1\<lparr>displayStreamRef := Some d\<rparr>;
                     hasAudio = (d_audio d \<noteq> [] \<or>
                                 (case mic of Some ts \<Rightarrow> ts \<noteq> [] | None \<Rightarrow> False))
                 in if \<not> hasAudio
                    then
                      (let (r, w1) = onMessage e ent STOP_RECORDING w;
                           (p3, w2) = refreshSessions (p2, w1)
                       in ([Alert NO_AUDIO_SOURCE_ALERT] @
                           map TrackStopped (display_tracks d) @
                           map TrackStopped (case mic of Some ts \<Rightarrow> ts | None \<Rightarrow> []) @
                           [Sent STOP_RECORDING r], p3, w2))
                    else
                      (let p3 = p2\<lparr>recorder := True\<rparr>;
                           (p4, w1) = refreshSessions (p3, w)
                       in ([RecorderStarted], p4, w1)))))"

text \<open>The click handler of the record button (lines 463-664).\<close>

definition recordClick ::
  "env \<Rightarrow> entropy \<Rightarrow> media \<Rightarrow> popup \<times> worker \<Rightarrow> ui_event list \<times> popup \<times> worker" where
  "recordClick e ent md pw =
     (case pw of (p, w) \<Rightarrow>
        if isRecording p
        then
          (let (r, w1) = onMessage e ent STOP_RECORDING w
           in ([Sent STOP_RECORDING r] @ (if recorder p then [RecorderStopRequested] else []),
               p, w1))
        else
          (let (res, w1) = onMessage e ent START_RECORDING w
           in case res of
                RespOkSession sid \<Rightarrow>
                  (if \<not> truthy sid
                   then ([Sent START_RECORDING res, Alert START_FAILED_ALERT], p, w1)
                   else
                     (let (evs, p1, w2) =
                            captureAfterStart e ent md (p\<lparr>currentSessionId := Some sid\<rparr>, w1)
                      in (Sent START_RECORDING res # evs, p1, w2)))
              | RespOk \<Rightarrow> ([Sent START_RECORDING res, Alert START_FAILED_ALERT], p, w1)
              | RespErr m \<Rightarrow>
                  ([Sent START_RECORDING res,
                    Alert (if truthy m then m else START_FAILED_ALERT)], p, w1)))"

definition is_submit :: "ui_event \<Rightarrow> bool" where
  "is_submit ev = (case ev of Sent (PROCESS_SESSION_AUDIO pl) r \<Rightarrow> True | _ \<Rightarrow> False)"

text \<open>The popup's own regeneration (lines 164-202 and 392-461).\<close>

definition fetchSessionAudioFromBackend_popup :: "env \<Rightarrow> session \<Rightarrow> string option" where
  "fetchSessionAudioFromBackend_popup e s =
     (if \<not> truthy_opt (user_id s) \<or> \<not> truthy (id_session s) then None
      else (case session_audio e (the (user_id s)) (id_session s) of
              FetchThrows err \<Rightarrow> None
            | FetchReturns resp \<Rightarrow>
                (if \<not> resp_ok resp then None
                 else (case resp_json resp of
                         None \<Rightarrow> None
                       | Some b \<Rightarrow> js_or (ab_audio_base64 b) None))))"

definition patchSession :: "string \<Rightarrow> patch \<Rightarrow> worker \<Rightarrow> worker" where
  "patchSession i p w =
     (case findIndex (\<lambda>s. id_session s = i) (sessions w) of
        None \<Rightarrow> w
      | Some idx \<Rightarrow>
          (let sessionCopy = sessions w ! idx;
               (copy1, w1) =
                 (case p_audio_base64 p of
                    None \<Rightarrow> (sessionCopy, w)
                  | Some a \<Rightarrow>
                      (let c = sessionCopy\<lparr>audio_base64 := None\<rparr>
                       in if truthy_opt a
                          then (c\<lparr>has_audio := True\<rparr>, persistSessionAudioBlob i (the a) w)
                          else if a = None
                          then (c\<lparr>has_audio := False\<rparr>, clearSessionAudioBlob i w)
                          else (c, w)))
           in w1\<lparr>sessions := (sessions w)[idx := apply_rest p copy1]\<rparr>))"

definition resolveSessionAudio :: "env \<Rightarrow> session \<Rightarrow> worker \<Rightarrow> string option \<times> worker" where
  "resolveSessionAudio e s w =
     (if truthy_opt (audio_base64 s)
      then (audio_base64 s,
            patchSession (id_session s) (empty_patch\<lparr>p_audio_base64 := Some (audio_base64 s)\<rparr>) w)
      else
        (case loadSessionAudioBlob (id_session s) w of
           Some cached \<Rightarrow> (Some cached, w)
         | None \<Rightarrow>
             (case fetchSessionAudioFromBackend_popup e s of
                Some downloaded \<Rightarrow>
                  (Some downloaded,
                   patchSession (id_session s) (empty_patch\<lparr>p_has_audio := Some True\<rparr>)
                     (persistSessionAudioBlob (id_session s) downloaded w))
              | None \<Rightarrow> (None, w))))"

definition regenerateSession ::
  "env \<Rightarrow> entropy \<Rightarrow> string \<Rightarrow> popup \<times> worker \<Rightarrow> ui_event list \<times> popup \<times> worker" where
  "regenerateSession e ent sid pw =
     (case pw of (p, w) \<Rightarrow>
        (case getSessionById sid w of
           None \<Rightarrow> ([Alert SESSION_NOT_FOUND_ALERT], p, w)
         | Some s \<Rightarrow>
             (let (audio, w1) = resolveSessionAudio e s w
              in if \<not> truthy_opt audio then ([Alert AUDIO_UNAVAILABLE_ALERT], p, w1)
                 else
                   (let w2 = patchSession sid (empty_patch\<lparr>p_status := Some Processing\<rparr>) w1;
                        (p1, w3) = refreshSessions (p, w2);
                        m = PROCESS_SESSION_AUDIO
                              \<lparr>sessionId = Some sid, audioBase64 = audio,
                               mimeType = Some (or_else (audio_mime_type s) ''audio/webm''),
                               durationMinutes = None, isRegeneration = Some True\<rparr>;
                        (r, w4) = onMessage e ent m w3
                    in case r of
                         RespErr msg \<Rightarrow>
                           (let readable = (if truthy msg then msg else REGEN_NOT_STARTED);
                                m2 = SESSION_REPORT_READY
                                       \<lparr>rr_sessionId = Some sid, rr_title = title s,
                                        rr_sessionReport = Some (REGEN_ERROR_PREFIX @ readable),
                                        rr_status = Some ''error'', rr_audioBase64 = Some audio,
                                        rr_hasAudio = None\<rparr>;
                                (r2, w5) = onMessage e ent m2 w4;
                                (p2, w6) = refreshSessions (p1, w5)
                            in ([Sent m r, Sent m2 r2, Alert readable], p2, w6))
                       | _ \<Rightarrow>
                           (let (p2, w5) = refreshSessions (p1, w4)
                            in ([Sent m r], p2, w5))))))"

definition md_silent :: media where
  "md_silent = \<lparr>getUserMedia = Rejected (JsError ''NotFoundError'' ''Requested device not found''),
     getDisplayMedia = Granted \<lparr>d_video = [''v1''], d_audio = []\<rparr>\<rparr>"

definition md_denied :: media where
  "md_denied = \<lparr>getUserMedia = Granted [],
     getDisplayMedia = Rejected (JsError ''NotAllowedError'' ''Permission denied'')\<rparr>"

section \<open>Properties\<close>

lemma findIndex_None: "findIndex P xs = None \<longleftrightarrow> (\<forall>x \<in> set xs. \<not> P x)"
  by (induction xs) auto

lemma findIndex_Some:
  "findIndex P xs = Some i \<Longrightarrow> i < length xs \<and> P (xs ! i) \<and> (\<forall>j < i. \<not> P (xs ! j))"
proof (induction xs arbitrary: i)
  case Nil
  then show ?case by simp
next
  case (Cons x xs)
  show ?case
  proof (cases "P x")
    case True
    with Cons.prems show ?thesis by simp
  next
    case False
    with Cons.prems obtain k where k: "findIndex P xs = Some k" "i = Suc k"
      by auto
    from Cons.IH [OF k(1)] False k(2) show ?thesis
      by (auto simp: nth_Cons split: nat.splits)
  qed
qed

subsection \<open>Lookups and the record-level update\<close>

lemma find_findIndex:
  "find P xs = Some x \<Longrightarrow> \<exists>idx. findIndex P xs = Some idx \<and> xs ! idx = x"
  by (induction xs) (auto split: if_splits)

lemma find_update_same:
  "findIndex P xs = Some idx \<Longrightarrow> P y \<Longrightarrow> find P (xs[idx := y]) = Some y"
  by (induction xs arbitrary: idx) (auto split: if_splits)

lemma find_update_other:
  "idx < length xs \<Longrightarrow> \<not> Q (xs ! idx) \<Longrightarrow> \<not> Q y \<Longrightarrow> find Q (xs[idx := y]) = find Q xs"
  by (induction xs arbitrary: idx) (auto simp: nth_Cons split: nat.splits)

lemma id_apply_rest [simp]: "id_session (apply_rest p s) = id_session s"
  by (simp add: apply_rest_def)

lemma id_audio_part [simp]: "id_session (audio_part p s) = id_session s"
  by (simp add: audio_part_def split: option.splits)

lemma sessions_persist [simp]: "sessions (persistSessionAudioBlob i a w) = sessions w"
  by (simp add: persistSessionAudioBlob_def)

lemma sessions_clear [simp]: "sessions (clearSessionAudioBlob i w) = sessions w"
  by (simp add: clearSessionAudioBlob_def)

lemma active_persist [simp]: "activeSessionId (persistSessionAudioBlob i a w) = activeSessionId w"
  by (simp add: persistSessionAudioBlob_def)

lemma active_clear [simp]: "activeSessionId (clearSessionAudioBlob i w) = activeSessionId w"
  by (simp add: clearSessionAudioBlob_def)

lemma get_persist [simp]: "getSessionById j (persistSessionAudioBlob i a w) = getSessionById j w"
  by (simp add: getSessionById_def)

lemma get_active_update [simp]:
  "getSessionById b (w\<lparr>activeSessionId := x\<rparr>) = getSessionById b w"
  by (simp add: getSessionById_def)

lemma get_autoOpened_update [simp]:
  "getSessionById b (w\<lparr>autoOpenedReportSessions := x\<rparr>) = getSessionById b w"
  by (simp add: getSessionById_def)

lemma getSessionById_None: "getSessionById i w = None \<longleftrightarrow> (\<forall>s \<in> set (sessions w). id_session s \<noteq> i)"
  by (auto simp: getSessionById_def find_None_iff)

lemma getSessionById_id: "getSessionById i w = Some s \<Longrightarrow> id_session s = i \<and> s \<in> set (sessions w)"
  by (auto simp: getSessionById_def find_Some_iff)

lemma updateSession_unknown:
  "\<forall>s \<in> set (sessions w). id_session s \<noteq> i \<Longrightarrow> updateSession i p w = w"
  using findIndex_None [of "\<lambda>s. id_session s = i" "sessions w"]
  by (simp add: updateSession_def)

lemma sessions_updateSession:
  "sessions (updateSession i p w) =
     (case findIndex (\<lambda>s. id_session s = i) (sessions w) of
        None \<Rightarrow> sessions w
      | Some idx \<Rightarrow> (sessions w)[idx := apply_rest p (audio_part p (sessions w ! idx))])"
  by (simp add: updateSession_def Let_def split: option.splits)

lemma active_updateSession [simp]:
  "activeSessionId (updateSession i p w) = activeSessionId w"
  by (simp add: updateSession_def Let_def split: option.splits)

lemma autoOpened_updateSession [simp]:
  "autoOpenedReportSessions (updateSession i p w) = autoOpenedReportSessions w"
  by (simp add: updateSession_def Let_def persistSessionAudioBlob_def clearSessionAudioBlob_def
        split: option.splits)

lemma ids_updateSession [simp]:
  "map id_session (sessions (updateSession i p w)) = map id_session (sessions w)"
proof (cases "findIndex (\<lambda>s. id_session s = i) (sessions w)")
  case None
  then show ?thesis by (simp add: sessions_updateSession)
next
  case (Some idx)
  from findIndex_Some [OF Some] have "idx < length (sessions w)" by simp
  then have "(map id_session (sessions w))[idx := id_session (sessions w ! idx)]
      = map id_session (sessions w)"
    by (simp add: list_update_same_conv)
  with Some show ?thesis
    by (simp add: sessions_updateSession map_update)
qed

lemma get_updateSession_same:
  assumes "getSessionById i w = Some s"
  shows "getSessionById i (updateSession i p w) = Some (apply_rest p (audio_part p s))"
proof -
  from find_findIndex [OF assms [unfolded getSessionById_def]]
  obtain idx where idx: "findIndex (\<lambda>s. id_session s = i) (sessions w) = Some idx"
    "sessions w ! idx = s" by blast
  from findIndex_Some [OF idx(1)] idx(2) have "id_session s = i" by simp
  then have "id_session (apply_rest p (audio_part p s)) = i" by simp
  with idx show ?thesis
    by (simp add: getSessionById_def sessions_updateSession find_update_same)
qed

lemma get_updateSession_other:
  assumes "j \<noteq> i"
  shows "getSessionById j (updateSession i p w) = getSessionById j w"
proof (cases "findIndex (\<lambda>s. id_session s = i) (sessions w)")
  case None
  then show ?thesis by (simp add: getSessionById_def sessions_updateSession)
next
  case (Some idx)
  from findIndex_Some [OF Some]
  have *: "idx < length (sessions w)" "id_session (sessions w ! idx) = i"
    by simp_all
  have "id_session (apply_rest p (audio_part p (sessions w ! idx))) = i"
    using * by simp
  with * assms Some show ?thesis
    by (simp add: getSessionById_def sessions_updateSession find_update_other)
qed

subsection \<open>The stop command\<close>

text \<open>
  Claim C6. A stop command succeeds exactly when an active session exists. With no
  active session pointer the listener answers with an error and leaves the whole state
  as it was. With the pointer at session \<open>a\<close> (session ids are UUID strings, never
  empty) it answers with \<open>a\<close>, clears the pointer, sets the status of the session
  \<open>a\<close> to processing and leaves every other session as it was.
\<close>

theorem stop_recording_spec:
  "(activeSessionId w = None \<longrightarrow>
      onMessage e ent STOP_RECORDING w = (RespErr ''No active session.'', w)) \<and>
   (\<forall>a. activeSessionId w = Some a \<and> truthy a \<longrightarrow>
      fst (onMessage e ent STOP_RECORDING w) = RespOkSession a \<and>
      activeSessionId (snd (onMessage e ent STOP_RECORDING w)) = None \<and>
      (\<forall>s. getSessionById a w = Some s \<longrightarrow>
         getSessionById a (snd (onMessage e ent STOP_RECORDING w))
           = Some (s\<lparr>status := Processing\<rparr>)) \<and>
      (\<forall>b. b \<noteq> a \<longrightarrow>
         getSessionById b (snd (onMessage e ent STOP_RECORDING w)) = getSessionById b w))"
  by (auto simp: handleStopRecording_def Let_def get_updateSession_same
        get_updateSession_other audio_part_def apply_rest_def empty_patch_def)

theorem stop_recording_spec_witness:
  "activeSessionId init_worker = None \<and>
   onMessage ex_env ex_ent STOP_RECORDING init_worker = (RespErr ''No active session.'', init_worker) \<and>
   activeSessionId w_recording = Some ''s1'' \<and> truthy ''s1'' \<and>
   getSessionById ''s1'' w_recording = Some ex_session \<and>
   fst (onMessage ex_env ex_ent STOP_RECORDING w_recording) = RespOkSession ''s1'' \<and>
   activeSessionId (snd (onMessage ex_env ex_ent STOP_RECORDING w_recording)) = None \<and>
   getSessionById ''s1'' (snd (onMessage ex_env ex_ent STOP_RECORDING w_recording))
     = Some (ex_session\<lparr>status := Processing\<rparr>)"
proof -
  have a: "activeSessionId init_worker = None" by (simp add: init_worker_def)
  have b: "activeSessionId w_recording = Some ''s1'' \<and> truthy ''s1''"
    by (simp add: w_recording_def truthy_def)
  have c: "getSessionById ''s1'' w_recording = Some ex_session"
    by (simp add: getSessionById_def w_recording_def ex_session_def)
  from a b c stop_recording_spec [of init_worker ex_env ex_ent]
    stop_recording_spec [of w_recording ex_env ex_ent]
  show ?thesis by blast
qed

subsection \<open>The audio cache\<close>

text \<open>
  Claim C8. Round trip: for a session id (a UUID string, so not empty) and a non-empty
  payload, persisting the blob and then reading the local cache gives the payload
  back unchanged, and so does the local-cache step of the audio resolution for a
  session with that id (no inline payload supplied), whatever the remote service
  would answer.
\<close>

theorem audio_roundtrip:
  assumes "truthy sid" and "truthy a"
  shows "loadSessionAudioBlob sid (persistSessionAudioBlob sid a w) = Some a \<and>
         (id_session s = sid \<longrightarrow>
            fst (ensureAudioForSession e s None m (persistSessionAudioBlob sid a w)) = Some a)"
  using assms
  by (simp add: loadSessionAudioBlob_def persistSessionAudioBlob_def ensureAudioForSession_def)

theorem audio_roundtrip_witness:
  "truthy ''s1'' \<and> truthy ''QUJD'' \<and> id_session ex_session = ''s1'' \<and>
   loadSessionAudioBlob ''s1'' (persistSessionAudioBlob ''s1'' ''QUJD'' w_recording) = Some ''QUJD'' \<and>
   fst (ensureAudioForSession ex_env ex_session None None
          (persistSessionAudioBlob ''s1'' ''QUJD'' w_recording)) = Some ''QUJD''"
proof -
  have h: "truthy ''s1''" "truthy ''QUJD''" by (simp_all add: truthy_def)
  have i: "id_session ex_session = ''s1''" by (simp add: ex_session_def)
  from h i audio_roundtrip [OF h, of w_recording ex_session ex_env None]
  show ?thesis by blast
qed

subsection \<open>Unknown session ids\<close>

text \<open>
  Claim C10. When no session of the store has the id \<open>i\<close>, the record-level update
  for \<open>i\<close> leaves the store (so also the sessions collection) unchanged, and a
  submit-for-analysis command naming \<open>i\<close> returns without writing anything.
\<close>

theorem unknown_session_frame:
  assumes "i \<notin> set (map id_session (sessions w))"
  shows "updateSession i p w = w \<and>
         (sessionId pl = Some i \<longrightarrow>
            processSessionAudioJob e pl w = w \<and>
            snd (onMessage e ent (PROCESS_SESSION_AUDIO pl) w) = w)"
proof -
  from assms have a: "\<forall>s \<in> set (sessions w). id_session s \<noteq> i" by auto
  then have g: "getSessionById i w = None" by (simp add: getSessionById_None)
  have "sessionId pl = Some i \<Longrightarrow> processSessionAudioJob e pl w = w"
    using g by (simp add: processSessionAudioJob_def prepareJob_def)
  then show ?thesis
    using updateSession_unknown [OF a]
    by (simp add: handleProcessSessionAudio_def)
qed

theorem unknown_session_frame_witness:
  "''zz'' \<notin> set (map id_session (sessions w_recording)) \<and>
   updateSession ''zz'' (failed_patch ''x'') w_recording = w_recording \<and>
   snd (onMessage ex_env ex_ent
          (PROCESS_SESSION_AUDIO \<lparr>sessionId = Some ''zz'', audioBase64 = Some ''QUJD'',
             mimeType = None, durationMinutes = None, isRegeneration = None\<rparr>) w_recording)
     = w_recording"
proof -
  have h: "''zz'' \<notin> set (map id_session (sessions w_recording))"
    by (simp add: w_recording_def ex_session_def)
  from h unknown_session_frame [OF h, of "failed_patch ''x''"
      "\<lparr>sessionId = Some ''zz'', audioBase64 = Some ''QUJD'',
         mimeType = None, durationMinutes = None, isRegeneration = None\<rparr>" ex_env ex_ent]
  show ?thesis by simp
qed

subsection \<open>What the writes do to the audio cache\<close>

lemma audio_updateSession_noaudio:
  "p_audio_base64 p = None \<Longrightarrow> sessionAudio (updateSession i p w) = sessionAudio w"
  by (simp add: updateSession_def Let_def split: option.splits)

lemma audio_updateSession_audio:
  "getSessionById i w = Some s \<Longrightarrow> truthy a \<Longrightarrow> truthy i \<Longrightarrow> p_audio_base64 p = Some (Some a) \<Longrightarrow>
   sessionAudio (updateSession i p w) = (sessionAudio w)(i \<mapsto> a)"
  by (auto simp: updateSession_def Let_def getSessionById_def persistSessionAudioBlob_def
      dest!: find_findIndex split: option.splits)

lemma load_autoOpened [simp]:
  "loadSessionAudioBlob i (w\<lparr>autoOpenedReportSessions := x\<rparr>) = loadSessionAudioBlob i w"
  by (simp add: loadSessionAudioBlob_def)

lemma audio_openReportTab [simp]: "sessionAudio (openReportTab i w) = sessionAudio w"
  by (simp add: openReportTab_def)

lemma patch_audio_simps [simp]:
  "p_audio_base64 (failed_patch r) = None"
  "p_audio_base64 (result_patch d t) = None"
  "p_audio_base64 empty_patch = None"
  by (simp_all add: failed_patch_def result_patch_def empty_patch_def Let_def)

lemma audio_handleAnalysisComplete [simp]:
  "sessionAudio (snd (handleAnalysisComplete pl w)) = sessionAudio w"
  by (simp add: handleAnalysisComplete_def Let_def audio_updateSession_noaudio)

lemma audio_analyzeJob [simp]: "sessionAudio (analyzeJob e job s w) = sessionAudio w"
  by (auto simp: analyzeJob_def Let_def audio_updateSession_noaudio dispatchOffscreenAnalysis_def
        offscreenAnalyzeSession_def split: sum.splits option.splits prod.splits response.splits)

lemma load_cong: "sessionAudio w' = sessionAudio w \<Longrightarrow> loadSessionAudioBlob i w' = loadSessionAudioBlob i w"
  by (simp add: loadSessionAudioBlob_def)

subsection \<open>Resolving the audio of a session\<close>

text \<open>
  Claim C5. Resolving usable audio for a session \<open>s\<close> goes in this order and
  returns the first hit. (1) An inline payload supplied by the caller is returned, and
  the job that asked for it stores it in the local cache. (2) Otherwise the local cache
  entry of the session's id is returned when there is one. (3) Otherwise the remote
  endpoint is asked with the session's user id and id: when it answers with a payload,
  the payload is returned, stored in the local cache, and the session is marked
  \<open>has_audio\<close>; when the call fails or times out, when the answer is not a success or
  carries no payload, or when the session has no user id, the result is unavailable
  and nothing is written.
\<close>

theorem audio_resolution_order:
  "(truthy_opt provided \<longrightarrow>
      fst (ensureAudioForSession e s provided m w) = provided \<and>
      snd (snd (ensureAudioForSession e s provided m w)) = w \<and>
      (getSessionById (id_session s) w = Some s \<and> truthy (id_session s) \<and>
       sessionId pl = Some (id_session s) \<and> audioBase64 pl = provided \<longrightarrow>
         loadSessionAudioBlob (id_session s) (processSessionAudioJob e pl w) = provided)) \<and>
   (\<not> truthy_opt provided \<longrightarrow>
      (\<forall>cached. loadSessionAudioBlob (id_session s) w = Some cached \<longrightarrow>
         fst (ensureAudioForSession e s provided m w) = Some cached \<and>
         snd (snd (ensureAudioForSession e s provided m w)) = w) \<and>
      (loadSessionAudioBlob (id_session s) w = None \<longrightarrow>
         (\<forall>u code body a.
            user_id s = Some u \<and> truthy u \<and> truthy (id_session s) \<and>
            session_audio e u (id_session s) = FetchReturns (HttpResponse True code (Some body)) \<and>
            ab_audio_base64 body = Some a \<and> truthy a \<longrightarrow>
              fst (ensureAudioForSession e s provided m w) = Some a \<and>
              loadSessionAudioBlob (id_session s)
                (snd (snd (ensureAudioForSession e s provided m w))) = Some a \<and>
              (getSessionById (id_session s) w = Some s \<longrightarrow>
                 map_option has_audio
                   (getSessionById (id_session s)
                      (snd (snd (ensureAudioForSession e s provided m w)))) = Some True)) \<and>
         (\<forall>u. user_id s = Some u \<and>
            (case session_audio e u (id_session s) of
               FetchThrows err \<Rightarrow> True
             | FetchReturns r \<Rightarrow>
                 \<not> resp_ok r \<or> \<not> truthy_opt (case resp_json r of None \<Rightarrow> None | Some b \<Rightarrow> ab_audio_base64 b)) \<longrightarrow>
              fst (ensureAudioForSession e s provided m w) = None \<and>
              snd (snd (ensureAudioForSession e s provided m w)) = w) \<and>
         (\<not> truthy_opt (user_id s) \<longrightarrow>
              fst (ensureAudioForSession e s provided m w) = None \<and>
              snd (snd (ensureAudioForSession e s provided m w)) = w)))"
proof (intro conjI impI allI)
  assume p: "truthy_opt provided"
  show "fst (ensureAudioForSession e s provided m w) = provided"
    using p by (simp add: ensureAudioForSession_def)
  show "snd (snd (ensureAudioForSession e s provided m w)) = w"
    using p by (simp add: ensureAudioForSession_def)
next
  assume p: "truthy_opt provided"
  assume h: "getSessionById (id_session s) w = Some s \<and> truthy (id_session s) \<and>
       sessionId pl = Some (id_session s) \<and> audioBase64 pl = provided"
  from p obtain a where a: "provided = Some a" "truthy a" by (cases provided) auto
  have "sessionAudio (processSessionAudioJob e pl w) = (sessionAudio w)(id_session s \<mapsto> a)"
    using h a
    by (simp add: processSessionAudioJob_def prepareJob_def ensureAudioForSession_def Let_def
          audio_updateSession_audio)
  then show "loadSessionAudioBlob (id_session s) (processSessionAudioJob e pl w) = provided"
    using h a by (simp add: loadSessionAudioBlob_def)
next
  fix cached
  assume "\<not> truthy_opt provided" "loadSessionAudioBlob (id_session s) w = Some cached"
  then show "fst (ensureAudioForSession e s provided m w) = Some cached"
    "snd (snd (ensureAudioForSession e s provided m w)) = w"
    by (simp_all add: ensureAudioForSession_def)
next
  fix u code body a
  assume np: "\<not> truthy_opt provided" and miss: "loadSessionAudioBlob (id_session s) w = None"
    and r: "user_id s = Some u \<and> truthy u \<and> truthy (id_session s) \<and>
            session_audio e u (id_session s) = FetchReturns (HttpResponse True code (Some body)) \<and>
            ab_audio_base64 body = Some a \<and> truthy a"
  have f: "fetchSessionAudioFromBackend e (user_id s) (id_session s) = Some body"
    using r by (simp add: fetchSessionAudioFromBackend_def)
  let ?p = "empty_patch\<lparr>p_has_audio := Some True,
                p_audio_mime_type := Some (or_else (ab_mime_type body) DEFAULT_MIME)\<rparr>"
  have res: "ensureAudioForSession e s provided m w =
      (Some a, or_else (ab_mime_type body) DEFAULT_MIME,
       updateSession (id_session s) ?p (persistSessionAudioBlob (id_session s) a w))"
    using np miss f r by (simp add: ensureAudioForSession_def Let_def)
  show "fst (ensureAudioForSession e s provided m w) = Some a" by (simp add: res)
  have "sessionAudio (snd (snd (ensureAudioForSession e s provided m w)))
      = (sessionAudio w)(id_session s \<mapsto> a)"
    using r by (simp add: res audio_updateSession_noaudio persistSessionAudioBlob_def)
  then show "loadSessionAudioBlob (id_session s)
                (snd (snd (ensureAudioForSession e s provided m w))) = Some a"
    using r by (simp add: loadSessionAudioBlob_def)
  show "map_option has_audio (getSessionById (id_session s)
           (snd (snd (ensureAudioForSession e s provided m w)))) = Some True"
    if "getSessionById (id_session s) w = Some s"
    using that by (simp add: res get_updateSession_same apply_rest_def)
next
  fix u
  assume np: "\<not> truthy_opt provided" and miss: "loadSessionAudioBlob (id_session s) w = None"
    and r: "user_id s = Some u \<and>
            (case session_audio e u (id_session s) of
               FetchThrows err \<Rightarrow> True
             | FetchReturns r \<Rightarrow>
                 \<not> resp_ok r \<or> \<not> truthy_opt (case resp_json r of None \<Rightarrow> None | Some b \<Rightarrow> ab_audio_base64 b))"
  then show "fst (ensureAudioForSession e s provided m w) = None"
    "snd (snd (ensureAudioForSession e s provided m w)) = w"
    by (auto simp: ensureAudioForSession_def fetchSessionAudioFromBackend_def Let_def
          split: fetch_outcome.splits option.splits)
next
  assume "\<not> truthy_opt provided" "loadSessionAudioBlob (id_session s) w = None"
    "\<not> truthy_opt (user_id s)"
  then show "fst (ensureAudioForSession e s provided m w) = None"
    "snd (snd (ensureAudioForSession e s provided m w)) = w"
    by (simp_all add: ensureAudioForSession_def fetchSessionAudioFromBackend_def)
qed

theorem audio_resolution_order_witness:
  "truthy_opt (Some ''QUJD'') \<and>
   getSessionById (id_session ex_session) w_recording = Some ex_session \<and>
   truthy (id_session ex_session) \<and> sessionId ex_submit = Some (id_session ex_session) \<and>
   audioBase64 ex_submit = Some ''QUJD'' \<and>
   fst (ensureAudioForSession ex_env ex_session (Some ''QUJD'') None w_recording) = Some ''QUJD'' \<and>
   loadSessionAudioBlob (id_session ex_session) (processSessionAudioJob ex_env ex_submit w_recording)
     = Some ''QUJD'' \<and>
   \<not> truthy_opt None \<and>
   loadSessionAudioBlob (id_session ex_session)
     (persistSessionAudioBlob ''s1'' ''QUJD'' w_recording) = Some ''QUJD'' \<and>
   fst (ensureAudioForSession ex_env ex_session None None
          (persistSessionAudioBlob ''s1'' ''QUJD'' w_recording)) = Some ''QUJD'' \<and>
   loadSessionAudioBlob (id_session ex_session) w_recording = None \<and>
   user_id ex_session = Some ''u1'' \<and> truthy ''u1'' \<and>
   session_audio ex_env_remote ''u1'' (id_session ex_session)
     = FetchReturns (HttpResponse True 200
         (Some \<lparr>ab_audio_base64 = Some ''QUJD'', ab_mime_type = Some ''audio/ogg''\<rparr>)) \<and>
   fst (ensureAudioForSession ex_env_remote ex_session None None w_recording) = Some ''QUJD'' \<and>
   loadSessionAudioBlob (id_session ex_session)
     (snd (snd (ensureAudioForSession ex_env_remote ex_session None None w_recording)))
     = Some ''QUJD'' \<and>
   map_option has_audio (getSessionById (id_session ex_session)
     (snd (snd (ensureAudioForSession ex_env_remote ex_session None None w_recording))))
     = Some True \<and>
   session_audio ex_env ''u1'' (id_session ex_session) = FetchReturns (HttpResponse False 404 None) \<and>
   fst (ensureAudioForSession ex_env ex_session None None w_recording) = None \<and>
   \<not> truthy_opt (user_id ex_anon_session) \<and>
   loadSessionAudioBlob (id_session ex_anon_session) w_recording = None \<and>
   fst (ensureAudioForSession ex_env_remote ex_anon_session None None w_recording) = None"
proof -
  have i: "id_session ex_session = ''s1''" "id_session ex_anon_session = ''s1''"
    by (simp_all add: ex_session_def ex_anon_session_def)
  have h1: "truthy_opt (Some ''QUJD'')" "truthy ''QUJD''" "truthy ''u1''" "truthy (id_session ex_session)"
    by (simp_all add: truthy_def i)
  have h2: "getSessionById (id_session ex_session) w_recording = Some ex_session"
    by (simp add: getSessionById_def w_recording_def ex_session_def)
  have h3: "sessionId ex_submit = Some (id_session ex_session)" "audioBase64 ex_submit = Some ''QUJD''"
    by (simp_all add: ex_submit_def i)
  have h4: "\<not> truthy_opt None" by simp
  have h5: "loadSessionAudioBlob (id_session ex_session)
      (persistSessionAudioBlob ''s1'' ''QUJD'' w_recording) = Some ''QUJD''"
    by (simp add: i loadSessionAudioBlob_def persistSessionAudioBlob_def truthy_def)
  have h6: "loadSessionAudioBlob (id_session ex_session) w_recording = None"
    "loadSessionAudioBlob (id_session ex_anon_session) w_recording = None"
    by (simp_all add: i loadSessionAudioBlob_def w_recording_def)
  have h7: "user_id ex_session = Some ''u1''" "\<not> truthy_opt (user_id ex_anon_session)"
    by (simp_all add: ex_session_def ex_anon_session_def)
  have h8: "session_audio ex_env_remote ''u1'' (id_session ex_session)
     = FetchReturns (HttpResponse True 200
         (Some \<lparr>ab_audio_base64 = Some ''QUJD'', ab_mime_type = Some ''audio/ogg''\<rparr>))"
    "session_audio ex_env ''u1'' (id_session ex_session) = FetchReturns (HttpResponse False 404 None)"
    by (simp_all add: ex_env_remote_def ex_env_def)
  note t1 = audio_resolution_order [of "Some ''QUJD''" ex_env ex_session None w_recording ex_submit]
  note t2 = audio_resolution_order [of None ex_env ex_session None
      "persistSessionAudioBlob ''s1'' ''QUJD'' w_recording" ex_submit]
  note t3 = audio_resolution_order [of None ex_env_remote ex_session None w_recording ex_submit]
  note t4 = audio_resolution_order [of None ex_env ex_session None w_recording ex_submit]
  note t5 = audio_resolution_order [of None ex_env_remote ex_anon_session None w_recording ex_submit]
  have c1: "fst (ensureAudioForSession ex_env ex_session (Some ''QUJD'') None w_recording) = Some ''QUJD''"
    "loadSessionAudioBlob (id_session ex_session) (processSessionAudioJob ex_env ex_submit w_recording)
     = Some ''QUJD''"
    using t1 h1 h2 h3 by blast+
  have c2: "fst (ensureAudioForSession ex_env ex_session None None
          (persistSessionAudioBlob ''s1'' ''QUJD'' w_recording)) = Some ''QUJD''"
    using t2 h4 h5 by blast
  have c3: "fst (ensureAudioForSession ex_env_remote ex_session None None w_recording) = Some ''QUJD''"
   "loadSessionAudioBlob (id_session ex_session)
     (snd (snd (ensureAudioForSession ex_env_remote ex_session None None w_recording)))
     = Some ''QUJD''"
   "map_option has_audio (getSessionById (id_session ex_session)
     (snd (snd (ensureAudioForSession ex_env_remote ex_session None None w_recording))))
     = Some True"
    using t3 h4 h6 h7 h8 h1 h2 by (simp_all)
  have c4: "fst (ensureAudioForSession ex_env ex_session None None w_recording) = None"
    using t4 h4 h6 h7 h8 by simp
  have c5: "fst (ensureAudioForSession ex_env_remote ex_anon_session None None w_recording) = None"
    using t5 h4 h6 h7 by blast
  from h1 h2 h3 h4 h5 h6 h7 h8 c1 c2 c3 c4 c5 show ?thesis by simp
qed

subsection \<open>A finished session without audio\<close>

lemma get_w_done: "getSessionById ''s1'' w_done = Some ex_done"
  by (simp add: getSessionById_def w_done_def ex_done_def ex_session_def)

lemma ensure_w_done:
  "ensureAudioForSession ex_env ex_done None None w_done = (None, ''audio/webm'', w_done)"
  by (simp add: ensureAudioForSession_def loadSessionAudioBlob_def w_done_def ex_done_def
        ex_session_def fetchSessionAudioFromBackend_def ex_env_def truthy_def js_or_def
        or_else_def DEFAULT_MIME_def)

subsection \<open>Network failures of the analysis call\<close>

lemma get_openReportTab [simp]: "getSessionById i (openReportTab j w) = getSessionById i w"
  by (simp add: openReportTab_def getSessionById_def)

lemma failed_on: "getSessionById i w = Some s0 \<Longrightarrow>
   getSessionById i (updateSession i (failed_patch r) w) = Some (s0\<lparr>status := Failed, session_report := Some r\<rparr>)"
  by (simp add: get_updateSession_same failed_patch_def apply_rest_def audio_part_def empty_patch_def)

lemma failed_twice: "getSessionById i w = Some s0 \<Longrightarrow>
   getSessionById i (updateSession i (failed_patch r) (updateSession i (failed_patch r') w))
     = Some (s0\<lparr>status := Failed, session_report := Some r\<rparr>)"
  by (simp add: get_updateSession_same failed_patch_def apply_rest_def audio_part_def empty_patch_def)

lemma error_text_message: "truthy m \<Longrightarrow> error_text (JsError n m) = m"
  by (simp add: error_text_def)

lemma analyzeJob_network_failure:
  assumes s0: "getSessionById (j_sessionId job) w = Some s0"
    and ok: "truthy (j_sessionId job)" "truthy (j_audioBase64 job)" "offscreen_fault e = None"
  shows
   "(\<not> hasOffscreen e \<longrightarrow>
      (\<forall>err. analyze e job = FetchThrows err \<longrightarrow>
         requestBackendAnalysis e job = Inl err \<and>
         getSessionById (j_sessionId job) (analyzeJob e job s w)
           = Some (s0\<lparr>status := Failed,
                session_report := Some (ANALYSIS_ERROR_PREFIX @ error_text err)\<rparr>)) \<and>
      (\<forall>r. analyze e job = FetchReturns r \<and> \<not> resp_ok r \<longrightarrow>
         getSessionById (j_sessionId job) (analyzeJob e job s w)
           = Some (s0\<lparr>status := Failed,
                session_report := Some (ANALYSIS_ERROR_PREFIX @
                  or_else (Option.bind (resp_json r) d_error)
                    (''HTTP '' @ string_of_nat (resp_status r)))\<rparr>))) \<and>
    (hasOffscreen e \<longrightarrow>
      (\<forall>err. analyze e (job\<lparr>j_durationMinutes := None\<rparr>) = FetchThrows err \<and>
             truthy (error_text err) \<longrightarrow>
         runBackendAnalysis e job = Inl err \<and>
         getSessionById (j_sessionId job) (analyzeJob e job s w)
           = Some (s0\<lparr>status := Failed,
                session_report := Some (DISPATCH_ERROR_PREFIX @ error_text err)\<rparr>)) \<and>
      (\<forall>r. analyze e (job\<lparr>j_durationMinutes := None\<rparr>) = FetchReturns r \<and> \<not> resp_ok r \<longrightarrow>
         getSessionById (j_sessionId job) (analyzeJob e job s w)
           = Some (s0\<lparr>status := Failed,
                session_report := Some (DISPATCH_ERROR_PREFIX @
                  or_else (Option.bind (resp_json r) d_error)
                    (OFFSCREEN_STATUS_PREFIX @ string_of_nat (resp_status r)))\<rparr>)))"
proof (intro conjI impI allI)
  fix err
  assume "\<not> hasOffscreen e" "analyze e job = FetchThrows err"
  then show "requestBackendAnalysis e job = Inl err"
    "getSessionById (j_sessionId job) (analyzeJob e job s w)
           = Some (s0\<lparr>status := Failed,
                session_report := Some (ANALYSIS_ERROR_PREFIX @ error_text err)\<rparr>)"
    using s0 by (simp_all add: analyzeJob_def requestBackendAnalysis_def failed_on)
next
  fix r
  assume "\<not> hasOffscreen e" "analyze e job = FetchReturns r \<and> \<not> resp_ok r"
  then show "getSessionById (j_sessionId job) (analyzeJob e job s w)
           = Some (s0\<lparr>status := Failed,
                session_report := Some (ANALYSIS_ERROR_PREFIX @
                  or_else (Option.bind (resp_json r) d_error)
                    (''HTTP '' @ string_of_nat (resp_status r)))\<rparr>)"
    using s0
    by (cases "resp_json r")
       (simp_all add: analyzeJob_def requestBackendAnalysis_def failed_on error_text_def
          error_toString_def truthy_def or_else_def empty_data_def split: option.splits)
next
  fix err
  assume h: "hasOffscreen e" "analyze e (job\<lparr>j_durationMinutes := None\<rparr>) = FetchThrows err \<and>
             truthy (error_text err)"
  then show r: "runBackendAnalysis e job = Inl err"
    using ok by (simp add: runBackendAnalysis_def)
  show "getSessionById (j_sessionId job) (analyzeJob e job s w)
           = Some (s0\<lparr>status := Failed,
                session_report := Some (DISPATCH_ERROR_PREFIX @ error_text err)\<rparr>)"
    using h ok s0 r
    by (simp add: analyzeJob_def dispatchOffscreenAnalysis_def offscreenAnalyzeSession_def
          handleAnalysisComplete_def failed_twice error_text_message)
next
  fix r
  assume h: "hasOffscreen e" "analyze e (job\<lparr>j_durationMinutes := None\<rparr>) = FetchReturns r \<and> \<not> resp_ok r"
  define cause where "cause = or_else (Option.bind (resp_json r) d_error)
                    (OFFSCREEN_STATUS_PREFIX @ string_of_nat (resp_status r))"
  have c: "truthy cause"
    by (cases "resp_json r")
       (auto simp: cause_def or_else_def truthy_def OFFSCREEN_STATUS_PREFIX_def split: option.splits)
  have rb: "runBackendAnalysis e job = Inl (JsError ''Error'' cause)"
    using h ok
    by (cases "resp_json r") (simp_all add: runBackendAnalysis_def cause_def empty_data_def or_else_def)
  have et: "error_text (JsError ''Error'' cause) = cause"
    using c by (simp add: error_text_def)
  show "getSessionById (j_sessionId job) (analyzeJob e job s w)
           = Some (s0\<lparr>status := Failed,
                session_report := Some (DISPATCH_ERROR_PREFIX @
                  or_else (Option.bind (resp_json r) d_error)
                    (OFFSCREEN_STATUS_PREFIX @ string_of_nat (resp_status r)))\<rparr>)"
    unfolding cause_def [symmetric]
    using h ok s0 rb et c
    by (simp add: analyzeJob_def dispatchOffscreenAnalysis_def offscreenAnalyzeSession_def
          handleAnalysisComplete_def failed_twice)
qed

lemma get_ensure:
  assumes "getSessionById i w = Some s0"
  shows "\<exists>s1. getSessionById i (snd (snd (ensureAudioForSession e s pa m w))) = Some s1"
proof (cases "i = id_session s")
  case True
  with assms show ?thesis
    by (auto simp: ensureAudioForSession_def Let_def get_updateSession_same
          split: option.splits)
next
  case False
  with assms show ?thesis
    by (auto simp: ensureAudioForSession_def Let_def get_updateSession_other
          split: option.splits)
qed

lemma prepareJob_Some:
  assumes "prepareJob e pl w = (Some (job, s), w1)"
  shows "sessionId pl = Some (j_sessionId job) \<and> truthy (j_audioBase64 job) \<and>
         (\<exists>s1. getSessionById (j_sessionId job) w1 = Some s1)"
proof -
  from assms obtain sid where sid: "sessionId pl = Some sid"
    by (cases "sessionId pl") (auto simp: prepareJob_def)
  from assms sid obtain s' where s': "getSessionById sid w = Some s'"
    by (cases "getSessionById sid w") (auto simp: prepareJob_def)
  obtain ra rm w0 where en: "ensureAudioForSession e s' (audioBase64 pl) (mimeType pl) w = (ra, rm, w0)"
    by (cases "ensureAudioForSession e s' (audioBase64 pl) (mimeType pl) w") auto
  from get_ensure [OF s', of e s' "audioBase64 pl" "mimeType pl"] en
  obtain s0 where s0: "getSessionById sid w0 = Some s0" by auto
  from assms sid s' en have t: "truthy_opt ra"
    by (auto simp: prepareJob_def split: if_splits)
  then obtain a where a: "ra = Some a" "truthy a" by (cases ra) auto
  from assms sid s' en t a s0 show ?thesis
    by (auto simp: prepareJob_def Let_def get_updateSession_same)
qed

text \<open>
  Claim C4. Take a submit-for-analysis command whose audio was resolved, so that the
  analysis call is made for \<open>job\<close>. The listener answers \<open>ok\<close> and the job returns
  a store; nothing is thrown past it. When the call is made in the worker (no offscreen
  API) and rejects (timeout, connection failure) with error \<open>err\<close>, the session ends
  failed and its report is a prefix followed by the error's text (its message, or its
  name when the message is empty); when the call
  returns a non-success status, the session ends failed and the report embeds the
  service's error detail when the body has one, else \<open>HTTP\<close> and the status code.
  When the call is made in the offscreen document the same holds (for an error whose
  text is not empty), with the prefix of the dispatch failure, which is written last,
  and the offscreen document's generic status message.
\<close>

theorem network_failure_ends_failed:
  assumes prep: "prepareJob e pl w = (Some (job, s), w1)"
    and sid: "truthy_opt (sessionId pl)"
    and nofault: "offscreen_fault e = None"
    and fin: "final = snd (onMessage e ent (PROCESS_SESSION_AUDIO pl) w)"
  shows
   "fst (onMessage e ent (PROCESS_SESSION_AUDIO pl) w) = RespOk \<and>
    (\<not> hasOffscreen e \<longrightarrow>
      (\<forall>err. analyze e job = FetchThrows err \<longrightarrow>
         requestBackendAnalysis e job = Inl err \<and>
         map_option status (getSessionById (j_sessionId job) final) = Some Failed \<and>
         map_option session_report (getSessionById (j_sessionId job) final)
           = Some (Some (ANALYSIS_ERROR_PREFIX @ error_text err))) \<and>
      (\<forall>r. analyze e job = FetchReturns r \<and> \<not> resp_ok r \<longrightarrow>
         map_option status (getSessionById (j_sessionId job) final) = Some Failed \<and>
         map_option session_report (getSessionById (j_sessionId job) final)
           = Some (Some (ANALYSIS_ERROR_PREFIX @
                  or_else (Option.bind (resp_json r) d_error)
                    (''HTTP '' @ string_of_nat (resp_status r)))))) \<and>
    (hasOffscreen e \<longrightarrow>
      (\<forall>err. analyze e (job\<lparr>j_durationMinutes := None\<rparr>) = FetchThrows err \<and>
             truthy (error_text err) \<longrightarrow>
         runBackendAnalysis e job = Inl err \<and>
         map_option status (getSessionById (j_sessionId job) final) = Some Failed \<and>
         map_option session_report (getSessionById (j_sessionId job) final)
           = Some (Some (DISPATCH_ERROR_PREFIX @ error_text err))) \<and>
      (\<forall>r. analyze e (job\<lparr>j_durationMinutes := None\<rparr>) = FetchReturns r \<and> \<not> resp_ok r \<longrightarrow>
         map_option status (getSessionById (j_sessionId job) final) = Some Failed \<and>
         map_option session_report (getSessionById (j_sessionId job) final)
           = Some (Some (DISPATCH_ERROR_PREFIX @
                  or_else (Option.bind (resp_json r) d_error)
                    (OFFSCREEN_STATUS_PREFIX @ string_of_nat (resp_status r))))))"
proof -
  from prepareJob_Some [OF prep] obtain s1 where
    p: "sessionId pl = Some (j_sessionId job)" "truthy (j_audioBase64 job)"
      "getSessionById (j_sessionId job) w1 = Some s1" by blast
  from sid p(1) have t: "truthy (j_sessionId job)" by simp
  have f: "final = analyzeJob e job s w1"
    using fin sid prep by (simp add: handleProcessSessionAudio_def processSessionAudioJob_def)
  have r: "fst (onMessage e ent (PROCESS_SESSION_AUDIO pl) w) = RespOk"
    using sid by (simp add: handleProcessSessionAudio_def)
  from analyzeJob_network_failure [OF p(3) t p(2) nofault, of s] r
  show ?thesis unfolding f by auto
qed

lemma prepare_ex: "prepareJob e ex_submit w_recording = (Some (ex_job, ex_session), w_processing)"
  by (simp add: prepareJob_def ex_submit_def getSessionById_def w_recording_def ex_session_def
        ensureAudioForSession_def truthy_def js_or_def or_else_def DEFAULT_MIME_def
        updateSession_def persistSessionAudioBlob_def apply_rest_def audio_part_def
        empty_patch_def ex_job_def w_processing_def)

lemma string_of_nat_500: "string_of_nat 500 = ''500''"
  by (simp add: string_of_nat.simps digit_def)

theorem network_failure_ends_failed_witness:
  "prepareJob ex_env ex_submit w_recording = (Some (ex_job, ex_session), w_processing) \<and>
   truthy_opt (sessionId ex_submit) \<and>
   \<not> hasOffscreen ex_env \<and> offscreen_fault ex_env = None \<and>
   analyze ex_env ex_job = FetchThrows (JsError ''TypeError'' ''Failed to fetch'') \<and>
   fst (onMessage ex_env ex_ent (PROCESS_SESSION_AUDIO ex_submit) w_recording) = RespOk \<and>
   map_option status (getSessionById ''s1''
     (snd (onMessage ex_env ex_ent (PROCESS_SESSION_AUDIO ex_submit) w_recording))) = Some Failed \<and>
   map_option session_report (getSessionById ''s1''
     (snd (onMessage ex_env ex_ent (PROCESS_SESSION_AUDIO ex_submit) w_recording)))
       = Some (Some (ANALYSIS_ERROR_PREFIX @ ''Failed to fetch'')) \<and>
   \<not> hasOffscreen ex_env_500 \<and>
   analyze ex_env_500 ex_job = FetchReturns (HttpResponse False 500 None) \<and>
   map_option status (getSessionById ''s1''
     (snd (onMessage ex_env_500 ex_ent (PROCESS_SESSION_AUDIO ex_submit) w_recording))) = Some Failed \<and>
   map_option session_report (getSessionById ''s1''
     (snd (onMessage ex_env_500 ex_ent (PROCESS_SESSION_AUDIO ex_submit) w_recording)))
       = Some (Some (ANALYSIS_ERROR_PREFIX @ ''HTTP 500'')) \<and>
   hasOffscreen ex_env_off_abort \<and>
   map_option status (getSessionById ''s1''
     (snd (onMessage ex_env_off_abort ex_ent (PROCESS_SESSION_AUDIO ex_submit) w_recording))) = Some Failed \<and>
   map_option session_report (getSessionById ''s1''
     (snd (onMessage ex_env_off_abort ex_ent (PROCESS_SESSION_AUDIO ex_submit) w_recording)))
       = Some (Some (DISPATCH_ERROR_PREFIX @ ''signal is aborted without reason'')) \<and>
   hasOffscreen ex_env_off_503 \<and>
   map_option status (getSessionById ''s1''
     (snd (onMessage ex_env_off_503 ex_ent (PROCESS_SESSION_AUDIO ex_submit) w_recording))) = Some Failed \<and>
   map_option session_report (getSessionById ''s1''
     (snd (onMessage ex_env_off_503 ex_ent (PROCESS_SESSION_AUDIO ex_submit) w_recording)))
       = Some (Some (DISPATCH_ERROR_PREFIX @ ''quota exceeded''))"
proof -
  have sid: "truthy_opt (sessionId ex_submit)" by (simp add: ex_submit_def truthy_def)
  have j: "j_sessionId ex_job = ''s1''" by (simp add: ex_job_def)
  have e1: "\<not> hasOffscreen ex_env" "offscreen_fault ex_env = None"
    "analyze ex_env ex_job = FetchThrows (JsError ''TypeError'' ''Failed to fetch'')"
    by (simp_all add: ex_env_def)
  have e2: "\<not> hasOffscreen ex_env_500" "offscreen_fault ex_env_500 = None"
    "analyze ex_env_500 ex_job = FetchReturns (HttpResponse False 500 None)"
    by (simp_all add: ex_env_500_def ex_env_def)
  have e3: "hasOffscreen ex_env_off_abort" "offscreen_fault ex_env_off_abort = None"
    "analyze ex_env_off_abort (ex_job\<lparr>j_durationMinutes := None\<rparr>)
       = FetchThrows (JsError ''AbortError'' ''signal is aborted without reason'')"
    by (simp_all add: ex_env_off_abort_def ex_env_def)
  have e4: "hasOffscreen ex_env_off_503" "offscreen_fault ex_env_off_503 = None"
    "analyze ex_env_off_503 (ex_job\<lparr>j_durationMinutes := None\<rparr>)
       = FetchReturns (HttpResponse False 503 (Some (empty_data\<lparr>d_error := Some ''quota exceeded''\<rparr>)))"
    by (simp_all add: ex_env_off_503_def ex_env_def)
  have t: "error_text (JsError ''TypeError'' ''Failed to fetch'') = ''Failed to fetch''"
    "error_text (JsError ''AbortError'' ''signal is aborted without reason'')
       = ''signal is aborted without reason''"
    "truthy ''signal is aborted without reason''"
    by (simp_all add: error_text_def truthy_def)
  have o: "or_else None (''HTTP '' @ string_of_nat 500) = ''HTTP 500''"
    "or_else (Some ''quota exceeded'') x = ''quota exceeded''" for x
    by (simp_all add: or_else_def string_of_nat_500 truthy_def)
  note a1 = network_failure_ends_failed [OF prepare_ex sid e1(2) refl, of ex_ent]
  note a2 = network_failure_ends_failed [OF prepare_ex sid e2(2) refl, of ex_ent]
  note a3 = network_failure_ends_failed [OF prepare_ex sid e3(2) refl, of ex_ent]
  note a4 = network_failure_ends_failed [OF prepare_ex sid e4(2) refl, of ex_ent]
  from a1 e1 t have c1:
    "fst (onMessage ex_env ex_ent (PROCESS_SESSION_AUDIO ex_submit) w_recording) = RespOk"
    "map_option status (getSessionById ''s1''
     (snd (onMessage ex_env ex_ent (PROCESS_SESSION_AUDIO ex_submit) w_recording))) = Some Failed"
    "map_option session_report (getSessionById ''s1''
     (snd (onMessage ex_env ex_ent (PROCESS_SESSION_AUDIO ex_submit) w_recording)))
       = Some (Some (ANALYSIS_ERROR_PREFIX @ ''Failed to fetch''))"
    by (simp_all add: j)
  from a2 e2 o have c2:
    "map_option status (getSessionById ''s1''
     (snd (onMessage ex_env_500 ex_ent (PROCESS_SESSION_AUDIO ex_submit) w_recording))) = Some Failed"
    "map_option session_report (getSessionById ''s1''
     (snd (onMessage ex_env_500 ex_ent (PROCESS_SESSION_AUDIO ex_submit) w_recording)))
       = Some (Some (ANALYSIS_ERROR_PREFIX @ ''HTTP 500''))"
    by (simp_all add: j)
  from a3 e3 t have c3:
    "map_option status (getSessionById ''s1''
     (snd (onMessage ex_env_off_abort ex_ent (PROCESS_SESSION_AUDIO ex_submit) w_recording))) = Some Failed"
    "map_option session_report (getSessionById ''s1''
     (snd (onMessage ex_env_off_abort ex_ent (PROCESS_SESSION_AUDIO ex_submit) w_recording)))
       = Some (Some (DISPATCH_ERROR_PREFIX @ ''signal is aborted without reason''))"
    by (simp_all add: j)
  from a4 e4 o have c4:
    "map_option status (getSessionById ''s1''
     (snd (onMessage ex_env_off_503 ex_ent (PROCESS_SESSION_AUDIO ex_submit) w_recording))) = Some Failed"
    "map_option session_report (getSessionById ''s1''
     (snd (onMessage ex_env_off_503 ex_ent (PROCESS_SESSION_AUDIO ex_submit) w_recording)))
       = Some (Some (DISPATCH_ERROR_PREFIX @ ''quota exceeded''))"
    by (simp_all add: j empty_data_def)
  from prepare_ex [of ex_env] sid e1 e2(1,3) e3(1) e4(1) c1 c2 c3 c4 show ?thesis
    by simp
qed

subsection \<open>What every write preserves\<close>

lemma evolves_trans: "evolves w1 w2 \<Longrightarrow> evolves w0 w1 \<Longrightarrow> evolves w0 w2"
  by (induction rule: evolves.induct) (auto intro: evolves.intros)

lemma evolves_upd1: "good_patch p \<Longrightarrow> evolves w (updateSession i p w)"
  by (rule evolves.upd [OF evolves.same])

lemma evolves_side1: "sessions w2 = sessions w \<Longrightarrow> activeSessionId w2 = activeSessionId w \<Longrightarrow> evolves w w2"
  by (rule evolves.side [OF evolves.same])

lemma good_patches [simp]:
  "good_patch (failed_patch r)"
  "good_patch (result_patch d t)"
  "good_patch (empty_patch\<lparr>p_status := Some Processing\<rparr>)"
  "good_patch (empty_patch\<lparr>p_status := Some Processing, p_audio_base64 := a, p_audio_mime_type := m\<rparr>)"
  "good_patch (empty_patch\<lparr>p_has_audio := h, p_audio_mime_type := m\<rparr>)"
  by (simp_all add: good_patch_def failed_patch_def result_patch_def empty_patch_def Let_def)

lemma evolves_openReportTab: "evolves w (openReportTab i w)"
  by (rule evolves_side1) (simp_all add: openReportTab_def)

lemma evolves_persist: "evolves w (persistSessionAudioBlob i a w)"
  by (rule evolves_side1) simp_all

lemma evolves_then_upd: "evolves w w1 \<Longrightarrow> good_patch p \<Longrightarrow> evolves w (updateSession i p w1)"
  by (rule evolves.upd)

lemma evolves_then_open: "evolves w w1 \<Longrightarrow> evolves w (openReportTab i w1)"
  by (rule evolves_trans [OF evolves_openReportTab])

lemma evolves_then_auto: "evolves w w1 \<Longrightarrow> evolves w (w1\<lparr>autoOpenedReportSessions := x\<rparr>)"
  by (erule evolves.side) simp_all

lemmas evolves_simps = evolves.same evolves_then_upd evolves_then_open evolves_then_auto
  evolves_persist

lemma evolves_ensure: "evolves w (snd (snd (ensureAudioForSession e s pa m w)))"
  by (simp add: ensureAudioForSession_def Let_def evolves_simps split: option.splits)

lemma evolves_prepareJob: "evolves w (snd (prepareJob e pl w))"
proof (cases "sessionId pl")
  case None
  then show ?thesis by (simp add: prepareJob_def evolves.same)
next
  case (Some sid)
  show ?thesis
  proof (cases "getSessionById sid w")
    case None
    with Some show ?thesis by (simp add: prepareJob_def evolves.same)
  next
    case (Some s)
    obtain ra rm w1 where en: "ensureAudioForSession e s (audioBase64 pl) (mimeType pl) w = (ra, rm, w1)"
      by (cases "ensureAudioForSession e s (audioBase64 pl) (mimeType pl) w") auto
    from evolves_ensure [of w e s "audioBase64 pl" "mimeType pl"] en have "evolves w w1" by simp
    with \<open>sessionId pl = Some sid\<close> Some en show ?thesis
      by (simp add: prepareJob_def Let_def evolves_simps)
  qed
qed

lemma evolves_complete: "evolves w w1 \<Longrightarrow> evolves w (snd (handleAnalysisComplete pl w1))"
  by (simp add: handleAnalysisComplete_def Let_def evolves_simps)

lemma evolves_offscreen: "evolves w w1 \<Longrightarrow> evolves w (snd (offscreenAnalyzeSession e job w1))"
  by (simp add: offscreenAnalyzeSession_def evolves_complete split: sum.splits)

lemma evolves_dispatch: "evolves w w1 \<Longrightarrow> evolves w (snd (dispatchOffscreenAnalysis e job w1))"
  using evolves_offscreen [of w w1 e job]
  by (auto simp: dispatchOffscreenAnalysis_def split: option.splits prod.splits response.splits)

lemma evolves_analyzeJob: "evolves w w1 \<Longrightarrow> evolves w (analyzeJob e job s w1)"
  using evolves_dispatch [of w w1 e job]
  by (auto simp: analyzeJob_def Let_def evolves_simps split: sum.splits option.splits prod.splits)

lemma evolves_process: "evolves w (processSessionAudioJob e pl w)"
  using evolves_prepareJob [of w e pl]
  by (auto simp: processSessionAudioJob_def evolves_analyzeJob split: prod.splits option.splits)

lemma evolves_reportReady: "evolves w (snd (handleSessionReportReady pl w))"
  by (simp add: handleSessionReportReady_def Let_def good_patch_def empty_patch_def
        evolves_simps split: option.splits)


lemma report_ok_apply:
  "good_patch p \<Longrightarrow> report_ok s \<Longrightarrow> report_ok (apply_rest p (audio_part p s))"
  by (auto simp: good_patch_def report_ok_def apply_rest_def audio_part_def
        split: option.splits session_status.splits)

lemma recording_apply:
  "good_patch p \<Longrightarrow> status (apply_rest p (audio_part p s)) = Recording \<Longrightarrow> status s = Recording"
  by (auto simp: good_patch_def apply_rest_def audio_part_def
        split: option.splits session_status.splits)

lemma set_sessions_updateSession:
  "s' \<in> set (sessions (updateSession i p w)) \<Longrightarrow>
     s' \<in> set (sessions w) \<or> (\<exists>s \<in> set (sessions w). s' = apply_rest p (audio_part p s))"
proof (cases "findIndex (\<lambda>s. id_session s = i) (sessions w)")
  case None
  assume "s' \<in> set (sessions (updateSession i p w))"
  with None show ?thesis by (simp add: sessions_updateSession)
next
  case (Some idx)
  assume a: "s' \<in> set (sessions (updateSession i p w))"
  from findIndex_Some [OF Some] have "idx < length (sessions w)" by simp
  then have "sessions w ! idx \<in> set (sessions w)" by simp
  with a Some set_update_subset_insert [of "sessions w" idx] show ?thesis
    by (auto simp: sessions_updateSession)
qed

lemma evolves_facts:
  "evolves w w' \<Longrightarrow>
     map id_session (sessions w') = map id_session (sessions w) \<and>
     activeSessionId w' = activeSessionId w \<and>
     recording_ids w' \<subseteq> recording_ids w \<and>
     ((\<forall>s \<in> set (sessions w). report_ok s) \<longrightarrow> (\<forall>s \<in> set (sessions w'). report_ok s))"
proof (induction rule: evolves.induct)
  case (same w)
  then show ?case by simp
next
  case (upd w w1 p i)
  have r: "recording_ids (updateSession i p w1) \<subseteq> recording_ids w1"
  proof
    fix x assume "x \<in> recording_ids (updateSession i p w1)"
    then obtain s' where s': "s' \<in> set (sessions (updateSession i p w1))"
      "status s' = Recording" "x = id_session s'"
      by (auto simp: recording_ids_def)
    from set_sessions_updateSession [OF s'(1)]
    show "x \<in> recording_ids w1"
    proof
      assume "s' \<in> set (sessions w1)"
      with s'(2,3) show ?thesis by (auto simp: recording_ids_def)
    next
      assume "\<exists>s \<in> set (sessions w1). s' = apply_rest p (audio_part p s)"
      then obtain s where s: "s \<in> set (sessions w1)" "s' = apply_rest p (audio_part p s)"
        by blast
      from recording_apply [OF upd.hyps(2)] s(2) s'(2) have "status s = Recording" by blast
      moreover from s(2) s'(3) have "x = id_session s" by simp
      ultimately show ?thesis using s(1) by (auto simp: recording_ids_def)
    qed
  qed
  have q: "\<forall>s \<in> set (sessions (updateSession i p w1)). report_ok s"
    if "\<forall>s \<in> set (sessions w1). report_ok s"
    using that set_sessions_updateSession [of _ i p w1] report_ok_apply [OF upd.hyps(2)]
    by blast
  from upd.IH r q show ?case by auto
next
  case (side w w1 w2)
  then show ?case by (simp add: recording_ids_def)
qed

lemma evolves_onMessage:
  "m \<noteq> START_RECORDING \<Longrightarrow> m \<noteq> STOP_RECORDING \<Longrightarrow> evolves w (snd (onMessage e ent m w))"
  by (cases m)
     (simp_all add: evolves_complete evolves_reportReady evolves.same
        handleProcessSessionAudio_def evolves_process)

lemma sessions_start:
  "sessions (snd (handleStartRecording ent w))
     = sessions w @ [newSessionMeta ent (fst (getUserProfile ent w))]"
  by (simp add: handleStartRecording_def getUserProfile_def pushSession_def Let_def
        split: option.splits prod.splits)

lemma active_start:
  "activeSessionId (snd (handleStartRecording ent w)) = Some (uuid_session ent)"
  by (simp add: handleStartRecording_def getUserProfile_def pushSession_def Let_def
        newSessionMeta_def split: option.splits prod.splits)

lemma stop_shape:
  "snd (handleStopRecording w) = w \<or>
   (\<exists>a. activeSessionId w = Some a \<and>
      snd (handleStopRecording w) =
        (updateSession a (empty_patch\<lparr>p_status := Some Processing\<rparr>) w)\<lparr>activeSessionId := None\<rparr>)"
  by (cases "activeSessionId w") (simp_all add: handleStopRecording_def Let_def)

lemma reachable_report_ok: "reachable w \<Longrightarrow> \<forall>s \<in> set (sessions w). report_ok s"
proof (induction rule: reachable.induct)
  case init
  then show ?case by (simp add: init_worker_def)
next
  case (handled w e ent m)
  show ?case
  proof (cases "m = START_RECORDING")
    case True
    with handled.IH show ?thesis
      by (auto simp: sessions_start report_ok_def newSessionMeta_def)
  next
    case ns: False
    show ?thesis
    proof (cases "m = STOP_RECORDING")
      case True
      from stop_shape [of w] show ?thesis
      proof
        assume "snd (handleStopRecording w) = w"
        with True handled.IH show ?thesis by simp
      next
        assume "\<exists>a. activeSessionId w = Some a \<and>
          snd (handleStopRecording w) =
            (updateSession a (empty_patch\<lparr>p_status := Some Processing\<rparr>) w)\<lparr>activeSessionId := None\<rparr>"
        then obtain a where a: "snd (handleStopRecording w) =
            (updateSession a (empty_patch\<lparr>p_status := Some Processing\<rparr>) w)\<lparr>activeSessionId := None\<rparr>"
          by blast
        from evolves_facts [OF evolves_upd1 [of "empty_patch\<lparr>p_status := Some Processing\<rparr>" w a]]
          handled.IH True a
        show ?thesis by simp
      qed
    next
      case False
      from evolves_facts [OF evolves_onMessage [OF ns False, of w e ent]] handled.IH
      show ?thesis by blast
    qed
  qed
next
  case (in_flight w pl e)
  from evolves_facts [OF evolves_prepareJob [of w e pl]] in_flight.IH
  show ?case by blast
qed

subsection \<open>Concrete runs of the listener\<close>

lemma string_of_nat_2025: "string_of_nat 2025 = ''2025''"
  by (simp add: string_of_nat.simps digit_def)

lemma start_init: "onMessage e ex_ent START_RECORDING init_worker = (RespOkSession ''s1'', w_recording)"
  by (simp add: handleStartRecording_def getUserProfile_def init_worker_def ex_ent_def Let_def
        string_of_nat_2025 newSessionMeta_def pushSession_def w_recording_def ex_session_def)

lemma stop_recording_ex: "onMessage e ent STOP_RECORDING w_recording = (RespOkSession ''s1'', w_stopped)"
  by (simp add: handleStopRecording_def w_recording_def truthy_def updateSession_def Let_def
        ex_session_def apply_rest_def audio_part_def empty_patch_def w_stopped_def)

lemma report_ready_ex: "onMessage e ent (SESSION_REPORT_READY ex_report_ready) w_stopped = (RespOk, w_done)"
  by (simp add: handleSessionReportReady_def ex_report_ready_def truthy_def w_stopped_def
        w_recording_def updateSession_def ex_session_def apply_rest_def audio_part_def
        empty_patch_def w_done_def ex_done_def or_else_def)

lemma reachable_w_recording: "reachable w_recording"
  using reachable.handled [OF reachable.init, of ex_env ex_ent START_RECORDING]
  by (simp only: start_init snd_conv)

lemma reachable_w_done: "reachable w_done"
proof -
  from reachable.handled [OF reachable_w_recording, of ex_env ex_ent STOP_RECORDING]
  have "reachable w_stopped" by (simp only: stop_recording_ex snd_conv)
  from reachable.handled [OF this, of ex_env ex_ent "SESSION_REPORT_READY ex_report_ready"]
  show ?thesis by (simp only: report_ready_ex snd_conv)
qed

lemma two_starts: "onMessage ex_env ex_ent2 START_RECORDING w_recording =
    (RespOkSession ''s2'',
     w_recording\<lparr>sessions := [ex_session, ex_session\<lparr>id_session := ''s2''\<rparr>],
        activeSessionId := Some ''s2''\<rparr>)"
  by (simp add: handleStartRecording_def getUserProfile_def ex_ent_def ex_ent2_def Let_def
        newSessionMeta_def pushSession_def w_recording_def ex_session_def truthy_def)

text \<open>
  Claim C1 as stated fails: the start branch checks nothing. From the store reached by
  one start (session \<open>s1\<close> recording and active), a second start is answered with
  the new id \<open>s2\<close>, and the store then holds two recording sessions.
\<close>

theorem second_start_accepted:
  "reachable w_recording \<and> map status (sessions w_recording) = [Recording] \<and>
   reachable w_two_starts \<and>
   fst (onMessage ex_env ex_ent2 START_RECORDING w_recording) = RespOkSession ''s2'' \<and>
   map id_session (sessions w_two_starts) = [''s1'', ''s2''] \<and>
   map status (sessions w_two_starts) = [Recording, Recording] \<and>
   length (filter is_recording (sessions w_two_starts)) = 2"
proof -
  have r: "reachable w_two_starts"
    unfolding w_two_starts_def by (rule reachable.handled [OF reachable_w_recording])
  have s: "sessions w_two_starts = [ex_session, ex_session\<lparr>id_session := ''s2''\<rparr>]"
    unfolding w_two_starts_def two_starts by simp
  have "map status (sessions w_recording) = [Recording]"
    by (simp add: w_recording_def ex_session_def)
  moreover have "fst (onMessage ex_env ex_ent2 START_RECORDING w_recording) = RespOkSession ''s2''"
    unfolding two_starts by simp
  ultimately show ?thesis
    using r s reachable_w_recording by (simp add: ex_session_def is_recording_def)
qed

lemma prepare_regen:
  "prepareJob e ex_submit w_done =
     (Some (ex_job\<lparr>j_userName := Some ''User-2025''\<rparr>, ex_done),
      w_done\<lparr>sessions := [ex_done\<lparr>status := Processing, has_audio := True\<rparr>],
         sessionAudio := [''s1'' \<mapsto> ''QUJD'']\<rparr>)"
  by (simp add: prepareJob_def ex_submit_def getSessionById_def w_done_def ex_done_def
        ex_session_def ensureAudioForSession_def truthy_def js_or_def or_else_def DEFAULT_MIME_def
        updateSession_def persistSessionAudioBlob_def apply_rest_def audio_part_def
        empty_patch_def ex_job_def)

text \<open>
  Claim C2 as stated fails: a session that re-enters processing keeps its report. The
  store \<open>w_done\<close> (start, stop, then a completion with a report) is reachable; a
  submit for the same session then leaves, while the analysis call is in flight, a
  session with status processing and the old report.
\<close>

theorem report_survives_reentry:
  "reachable w_done \<and>
   map_option status (getSessionById ''s1'' w_done) = Some Done \<and>
   map_option session_report (getSessionById ''s1'' w_done) = Some (Some ''## Summary'') \<and>
   reachable w_regen \<and>
   map_option status (getSessionById ''s1'' w_regen) = Some Processing \<and>
   map_option session_report (getSessionById ''s1'' w_regen) = Some (Some ''## Summary'')"
proof -
  have r: "reachable w_regen"
    unfolding w_regen_def
    by (rule reachable.in_flight [OF reachable_w_done]) (simp add: ex_submit_def truthy_def)
  have "getSessionById ''s1'' w_regen = Some (ex_done\<lparr>status := Processing, has_audio := True\<rparr>)"
    by (simp add: w_regen_def prepare_regen getSessionById_def ex_done_def ex_session_def)
  with r reachable_w_done get_w_done show ?thesis
    by (simp add: ex_done_def)
qed


subsection \<open>One recording session at a time\<close>

lemma find_distinct:
  "distinct (map f xs) \<Longrightarrow> x \<in> set xs \<Longrightarrow> find (\<lambda>y. f y = f x) xs = Some x"
  by (induction xs) (auto simp: image_iff)

lemma distinct_all_equal: "distinct xs \<Longrightarrow> \<forall>x \<in> set xs. x = a \<Longrightarrow> length xs \<le> 1"
proof (cases xs)
  case Nil
  then show ?thesis by simp
next
  case (Cons x ys)
  assume "distinct xs" "\<forall>x \<in> set xs. x = a"
  with Cons show ?thesis by (cases ys) auto
qed

lemma recording_ids_stop:
  assumes d: "distinct (map id_session (sessions w))"
    and r: "\<forall>i \<in> recording_ids w. activeSessionId w = Some i"
    and a: "activeSessionId w = Some a"
  shows "recording_ids (updateSession a (empty_patch\<lparr>p_status := Some Processing\<rparr>) w) = {}"
proof (rule ccontr)
  let ?p = "empty_patch\<lparr>p_status := Some Processing\<rparr>"
  let ?w = "updateSession a ?p w"
  assume "recording_ids ?w \<noteq> {}"
  then obtain s' where s': "s' \<in> set (sessions ?w)" "status s' = Recording"
    by (auto simp: recording_ids_def)
  note f = evolves_facts [OF evolves_upd1 [of ?p w a]]
  from s' have "id_session s' \<in> recording_ids ?w" by (auto simp: recording_ids_def)
  with f r a have ida: "id_session s' = a" by auto
  from f d have d': "distinct (map id_session (sessions ?w))" by simp
  from find_distinct [OF d' s'(1)] ida have g': "getSessionById a ?w = Some s'"
    by (simp add: getSessionById_def)
  have "set (map id_session (sessions ?w)) = set (map id_session (sessions w))" by simp
  then have "id_session ` set (sessions ?w) = id_session ` set (sessions w)"
    by (simp only: set_map)
  with imageI [OF s'(1), of id_session] ida have "a \<in> id_session ` set (sessions w)"
    by blast
  then obtain s0 where "getSessionById a w = Some s0"
    by (cases "getSessionById a w") (auto simp: getSessionById_None)
  from get_updateSession_same [OF this, of ?p] g'
  have "status s' = Processing" by (auto simp: apply_rest_def empty_patch_def)
  with s'(2) show False by simp
qed

lemma updateSessionFrom_same: "updateSessionFrom w i p w = updateSession i p w"
  by (simp add: updateSessionFrom_def updateSession_def)

lemma single_active_ids:
  "single_active w \<longleftrightarrow>
     distinct (map id_session (sessions w)) \<and> (\<forall>i \<in> recording_ids w. activeSessionId w = Some i)"
  by (auto simp: single_active_def recording_ids_def)

lemma single_active_stop: "single_active w \<Longrightarrow> single_active (snd (handleStopRecording w))"
proof -
  assume s: "single_active w"
  from stop_shape [of w] show ?thesis
  proof
    assume "snd (handleStopRecording w) = w"
    with s show ?thesis by simp
  next
    assume "\<exists>a. activeSessionId w = Some a \<and>
          snd (handleStopRecording w) =
            (updateSession a (empty_patch\<lparr>p_status := Some Processing\<rparr>) w)\<lparr>activeSessionId := None\<rparr>"
    then obtain a where a: "activeSessionId w = Some a" "snd (handleStopRecording w) =
            (updateSession a (empty_patch\<lparr>p_status := Some Processing\<rparr>) w)\<lparr>activeSessionId := None\<rparr>"
      by blast
    from s have d: "distinct (map id_session (sessions w))"
      and r: "\<forall>i \<in> recording_ids w. activeSessionId w = Some i"
      by (simp_all add: single_active_ids)
    from recording_ids_stop [OF d r a(1)]
    have "recording_ids (snd (handleStopRecording w)) = {}"
      by (simp add: a(2) recording_ids_def)
    with d show ?thesis by (simp add: single_active_ids a(2))
  qed
qed

lemma single_active_evolves: "evolves w w' \<Longrightarrow> single_active w \<Longrightarrow> single_active w'"
  using evolves_facts [of w w'] by (auto simp: single_active_ids)

lemma single_active_start:
  assumes s: "single_active w" and n: "activeSessionId w = None"
    and f: "uuid_session ent \<notin> set (map id_session (sessions w))"
  shows "single_active (snd (handleStartRecording ent w))"
proof -
  from s n have none: "recording_ids w = {}" by (auto simp: single_active_ids)
  have "recording_ids (snd (handleStartRecording ent w)) \<subseteq> insert (uuid_session ent) (recording_ids w)"
    by (auto simp: recording_ids_def sessions_start newSessionMeta_def)
  with none s f show ?thesis
    by (auto simp: single_active_ids sessions_start active_start newSessionMeta_def)
qed

lemma single_active_at_most_one:
  assumes "single_active w"
  shows "length (filter (\<lambda>s. status s = Recording) (sessions w)) \<le> 1"
proof -
  let ?rs = "filter (\<lambda>s. status s = Recording) (sessions w)"
  from assms have "distinct (map id_session ?rs)"
    by (simp add: single_active_def distinct_map_filter)
  moreover have "\<forall>x \<in> set (map id_session ?rs). x = the (activeSessionId w)"
    using assms by (auto simp: single_active_def)
  ultimately have "length (map id_session ?rs) \<le> 1" by (rule distinct_all_equal)
  then show ?thesis by simp
qed

text \<open>
  Claim C1, amended. The start branch rejects nothing: whatever the store, it answers
  with the new id, appends one new recording session and points the active session at
  it. The empty store is \<open>single_active\<close>. From a \<open>single_active\<close> store, where at
  most one session is recording and it is the active one, every command run to its end
  with no other handler's write in between leaves a \<open>single_active\<close> store, and so
  does the job up to its analysis call, provided that a start is sent only when the
  store has no active session and draws an id no session has. The worker checks neither
  proviso, and the property is about commands run one at a time.
\<close>

theorem commands_preserve_single_recording:
  "single_active init_worker \<and>
   (single_active w \<longrightarrow>
      length (filter (\<lambda>s. status s = Recording) (sessions w)) \<le> 1 \<and>
      (m \<noteq> START_RECORDING \<longrightarrow> single_active (snd (onMessage e ent m w))) \<and>
      (activeSessionId w = None \<and> uuid_session ent \<notin> set (map id_session (sessions w)) \<longrightarrow>
         single_active (snd (onMessage e ent START_RECORDING w))) \<and>
      single_active (snd (prepareJob e pl w))) \<and>
   fst (onMessage e ent START_RECORDING w) = RespOkSession (uuid_session ent) \<and>
   sessions (snd (onMessage e ent START_RECORDING w))
     = sessions w @ [newSessionMeta ent (fst (getUserProfile ent w))] \<and>
   id_session (newSessionMeta ent (fst (getUserProfile ent w))) = uuid_session ent \<and>
   status (newSessionMeta ent (fst (getUserProfile ent w))) = Recording \<and>
   activeSessionId (snd (onMessage e ent START_RECORDING w)) = Some (uuid_session ent)"
proof -
  have i: "single_active init_worker" by (simp add: single_active_def init_worker_def)
  have other: "single_active (snd (onMessage e ent m w))"
    if s: "single_active w" and ns: "m \<noteq> START_RECORDING"
  proof (cases "m = STOP_RECORDING")
    case True
    with single_active_stop [OF s] show ?thesis by simp
  next
    case False
    from single_active_evolves [OF evolves_onMessage [OF ns False] s] show ?thesis .
  qed
  have start: "single_active (snd (onMessage e ent START_RECORDING w))"
    if "single_active w" "activeSessionId w = None"
      "uuid_session ent \<notin> set (map id_session (sessions w))"
    using single_active_start [OF that] by simp
  have prep: "single_active (snd (prepareJob e pl w))" if "single_active w"
    by (rule single_active_evolves [OF evolves_prepareJob that])
  have r: "fst (onMessage e ent START_RECORDING w) = RespOkSession (uuid_session ent)"
    by (simp add: handleStartRecording_def Let_def newSessionMeta_def split: prod.splits)
  from i other start prep single_active_at_most_one r show ?thesis
    by (simp add: sessions_start active_start newSessionMeta_def)
qed

text \<open>
  The limit of the property above: two handlers that interleave. Run one after the
  other, the stop of \<open>s1\<close> and the completion of \<open>s0\<close> leave \<open>s1\<close> processing. When
  both read before either writes, the completion writes back the array it read, the
  stop's write is lost, and \<open>s1\<close> stays recording with no active session; a start
  sent then, with no active session, gives two recording sessions.
\<close>

lemma w_two_sessions_single: "single_active w_two_sessions"
  by (simp add: single_active_def w_two_sessions_def w_recording_def ex_session0_def ex_session_def)

lemma whole_handlers_stop_then_complete:
  "map status (sessions (snd (onMessage e ent (OFFSCREEN_ANALYSIS_COMPLETE ex_complete)
      (snd (onMessage e ent STOP_RECORDING w_two_sessions))))) = [Done, Processing]"
  by (simp add: handleStopRecording_def handleAnalysisComplete_def w_two_sessions_def
        w_recording_def ex_session0_def ex_session_def ex_complete_def ex_result_def truthy_def
        updateSession_def result_patch_def apply_rest_def audio_part_def empty_patch_def
        openReportTab_def Let_def or_else_def js_or_def)

lemma interleaved_stop_write_lost:
  "map id_session (sessions w_lost_stop) = [''s0'', ''s1''] \<and>
   map status (sessions w_lost_stop) = [Done, Recording] \<and>
   activeSessionId w_lost_stop = None \<and>
   \<not> single_active w_lost_stop \<and>
   map status (sessions (snd (onMessage ex_env ex_ent2 START_RECORDING w_lost_stop)))
     = [Done, Recording, Recording]"
proof -
  have s: "sessions w_lost_stop =
      [ex_session0\<lparr>status := Done, title := Some ''Weekly sync'',
         session_report := Some ''## Summary''\<rparr>, ex_session]"
    by (simp add: w_lost_stop_def updateSessionFrom_def w_two_sessions_def w_recording_def
        ex_session0_def ex_session_def ex_result_def result_patch_def apply_rest_def
        audio_part_def empty_patch_def openReportTab_def Let_def or_else_def js_or_def truthy_def)
  have a: "activeSessionId w_lost_stop = None" by (simp add: w_lost_stop_def)
  from s a show ?thesis
    by (simp add: single_active_def sessions_start newSessionMeta_def ex_session0_def ex_session_def)
qed


theorem commands_preserve_single_recording_witness:
  "single_active init_worker \<and> activeSessionId init_worker = None \<and>
   uuid_session ex_ent \<notin> set (map id_session (sessions init_worker)) \<and>
   single_active (snd (onMessage ex_env ex_ent START_RECORDING init_worker)) \<and>
   single_active w_recording \<and>
   length (filter (\<lambda>s. status s = Recording) (sessions w_recording)) \<le> 1 \<and>
   STOP_RECORDING \<noteq> START_RECORDING \<and>
   single_active (snd (onMessage ex_env ex_ent STOP_RECORDING w_recording)) \<and>
   single_active (snd (prepareJob ex_env ex_submit w_recording)) \<and>
   fst (onMessage ex_env ex_ent2 START_RECORDING w_recording) = RespOkSession ''s2'' \<and>
   activeSessionId (snd (onMessage ex_env ex_ent2 START_RECORDING w_recording)) = Some ''s2'' \<and>
   activeSessionId w_recording = Some ''s1'' \<and>
   \<not> single_active (snd (onMessage ex_env ex_ent2 START_RECORDING w_recording))"
proof -
  have h0: "activeSessionId init_worker = None"
    "uuid_session ex_ent \<notin> set (map id_session (sessions init_worker))"
    by (simp_all add: init_worker_def)
  have h1: "single_active w_recording"
    by (simp add: single_active_def w_recording_def ex_session_def)
  have h2: "STOP_RECORDING \<noteq> START_RECORDING" by simp
  have u: "uuid_session ex_ent2 = ''s2''" by (simp add: ex_ent2_def)
  have a: "activeSessionId w_recording = Some ''s1''" by (simp add: w_recording_def)
  note t0 = commands_preserve_single_recording [of init_worker START_RECORDING ex_env ex_ent ex_submit]
  note t1 = commands_preserve_single_recording [of w_recording STOP_RECORDING ex_env ex_ent ex_submit]
  note t2 = commands_preserve_single_recording [of w_recording STOP_RECORDING ex_env ex_ent2 ex_submit]
  from t0 h0 have c0: "single_active init_worker"
    "single_active (snd (onMessage ex_env ex_ent START_RECORDING init_worker))"
    by blast+
  from t1 h1 h2 have c1:
    "length (filter (\<lambda>s. status s = Recording) (sessions w_recording)) \<le> 1"
    "single_active (snd (onMessage ex_env ex_ent STOP_RECORDING w_recording))"
    "single_active (snd (prepareJob ex_env ex_submit w_recording))"
    by blast+
  from t2 u have c2:
    "fst (onMessage ex_env ex_ent2 START_RECORDING w_recording) = RespOkSession ''s2''"
    "activeSessionId (snd (onMessage ex_env ex_ent2 START_RECORDING w_recording)) = Some ''s2''"
    by simp_all
  have c3: "\<not> single_active (snd (onMessage ex_env ex_ent2 START_RECORDING w_recording))"
    unfolding two_starts by (simp add: single_active_def ex_session_def)
  from h0 h1 h2 a c0 c1 c2 c3 show ?thesis by simp
qed

subsection \<open>Status and report\<close>

text \<open>
  Claim C2, amended. In every reachable store, a session that is done or failed has a
  report, and a session that has a report is not recording (it is processing, done or
  failed: the report of an earlier run stays while the session is processed again).
\<close>

theorem reachable_report_invariant:
  assumes "reachable w" and "s \<in> set (sessions w)"
  shows "(status s = Done \<or> status s = Failed \<longrightarrow> session_report s \<noteq> None) \<and>
         (session_report s \<noteq> None \<longrightarrow> status s \<noteq> Recording)"
  using reachable_report_ok [OF assms(1)] assms(2) by (auto simp: report_ok_def)

theorem reachable_report_invariant_witness:
  "reachable w_done \<and> ex_done \<in> set (sessions w_done) \<and>
   status ex_done = Done \<and> session_report ex_done \<noteq> None \<and> status ex_done \<noteq> Recording"
proof -
  have m: "ex_done \<in> set (sessions w_done)" by (simp add: w_done_def)
  have d: "status ex_done = Done" by (simp add: ex_done_def)
  from reachable_report_invariant [OF reachable_w_done m] d reachable_w_done m
  show ?thesis by simp
qed

subsection \<open>The legacy-audio migration\<close>

lemma migrate_loop_sessions:
  "fst (migrate_loop ss w) = map (\<lambda>s. if carries_audio s then migrate_one s else s) ss"
  by (induction ss arbitrary: w) (simp_all add: carries_audio_def Let_def case_prod_beta)

lemma migrate_loop_modified:
  "snd (snd (migrate_loop ss w)) = (\<exists>s \<in> set ss. carries_audio s)"
  by (induction ss arbitrary: w) (simp_all add: carries_audio_def Let_def case_prod_beta)

lemma migrate_loop_clean:
  "\<forall>s \<in> set ss. \<not> carries_audio s \<Longrightarrow> migrate_loop ss w = (ss, w, False)"
  by (induction ss arbitrary: w) (simp_all add: carries_audio_def)

lemma migrate_loop_frame:
  "sessions (fst (snd (migrate_loop ss w))) = sessions w \<and>
   activeSessionId (fst (snd (migrate_loop ss w))) = activeSessionId w \<and>
   userProfile (fst (snd (migrate_loop ss w))) = userProfile w \<and>
   autoOpenedReportSessions (fst (snd (migrate_loop ss w))) = autoOpenedReportSessions w"
  by (induction ss arbitrary: w)
     (simp_all add: Let_def case_prod_beta persistSessionAudioBlob_def)

lemma migrate_loop_audio_other:
  "i \<notin> id_session ` set ss \<Longrightarrow> sessionAudio (fst (snd (migrate_loop ss w))) i = sessionAudio w i"
  by (induction ss arbitrary: w)
     (simp_all add: Let_def case_prod_beta persistSessionAudioBlob_def)

lemma migrate_loop_audio:
  "distinct (map id_session ss) \<Longrightarrow> s \<in> set ss \<Longrightarrow> carries_audio s \<Longrightarrow> truthy (id_session s) \<Longrightarrow>
     sessionAudio (fst (snd (migrate_loop ss w))) (id_session s) = audio_base64 s"
proof (induction ss arbitrary: w)
  case Nil
  then show ?case by simp
next
  case (Cons x ss)
  show ?case
  proof (cases "s = x")
    case True
    from Cons.prems(1) True have "id_session s \<notin> id_session ` set ss" by simp
    from migrate_loop_audio_other [OF this] Cons.prems(3,4) True show ?thesis
      by (cases "audio_base64 x")
         (simp_all add: Let_def case_prod_beta carries_audio_def persistSessionAudioBlob_def)
  next
    case False
    with Cons.prems have "s \<in> set ss" "distinct (map id_session ss)" by simp_all
    from Cons.IH [OF this(2) this(1) Cons.prems(3,4)] show ?thesis
      by (simp add: Let_def case_prod_beta)
  qed
qed

lemma map_if_none: "\<forall>x \<in> set xs. \<not> P x \<Longrightarrow> map (\<lambda>x. if P x then f x else x) xs = xs"
  by (induction xs) simp_all

lemma not_carries_migrate_one [simp]: "\<not> carries_audio (migrate_one s)"
  by (simp add: carries_audio_def migrate_one_def)

lemma pass_sessions:
  "\<not> legacyAudioMigrationDone (fst pw) \<Longrightarrow>
     sessions (snd (migration_pass pw))
       = map (\<lambda>s. if carries_audio s then migrate_one s else s) (sessions (snd pw))"
proof -
  assume n: "\<not> legacyAudioMigrationDone (fst pw)"
  obtain p w where pw: "pw = (p, w)" by (cases pw)
  obtain c w1 m where l: "migrate_loop (sessions w) w = (c, w1, m)"
    by (cases "migrate_loop (sessions w) w") auto
  from migrate_loop_sessions [of "sessions w" w] l
  have c: "c = map (\<lambda>s. if carries_audio s then migrate_one s else s) (sessions w)" by simp
  from migrate_loop_modified [of "sessions w" w] l
  have m: "m = (\<exists>s \<in> set (sessions w). carries_audio s)" by simp
  from migrate_loop_frame [of "sessions w" w] l have f: "sessions w1 = sessions w" by simp
  have "\<not> m \<Longrightarrow> c = sessions w" unfolding c m by (simp add: map_if_none)
  with n pw l c f show ?thesis
    by (auto simp: migration_pass_def migrateLegacySessionAudio_def)
qed

lemma pass_done: "legacyAudioMigrationDone (fst pw) \<Longrightarrow> migration_pass pw = pw"
  by (cases pw) (simp add: migration_pass_def migrateLegacySessionAudio_def)

lemma pass_flag: "legacyAudioMigrationDone (fst (migration_pass pw))"
  by (cases pw) (simp add: migration_pass_def migrateLegacySessionAudio_def Let_def split: prod.splits)

lemma pass_clean:
  assumes "\<forall>s \<in> set (sessions w). \<not> carries_audio s"
  shows "snd (migration_pass (p, w)) = w"
  using migrate_loop_clean [OF assms, of w]
  by (simp add: migration_pass_def migrateLegacySessionAudio_def)

lemma pass_audio:
  assumes n: "\<not> legacyAudioMigrationDone (fst pw)"
    and d: "distinct (map id_session (sessions (snd pw)))"
    and s: "s \<in> set (sessions (snd pw))" "carries_audio s" "truthy (id_session s)"
  shows "loadSessionAudioBlob (id_session s) (snd (migration_pass pw)) = audio_base64 s"
proof -
  obtain p w where pw: "pw = (p, w)" by (cases pw)
  have "sessionAudio (snd (migration_pass pw)) = sessionAudio (fst (snd (migrate_loop (sessions w) w)))"
    using n pw by (simp add: migration_pass_def migrateLegacySessionAudio_def case_prod_beta Let_def)
  with migrate_loop_audio [OF _ _ s(2,3), of "sessions w" w] d s(1) pw
  have "sessionAudio (snd (migration_pass pw)) (id_session s) = audio_base64 s" by simp
  with s(2,3) show ?thesis
    by (cases "audio_base64 s") (simp_all add: loadSessionAudioBlob_def carries_audio_def)
qed

text \<open>
  Claim C7. Running the migration pass twice gives the same popup flag and the same
  store as running it once. The flag is set after the pass, and with the flag set the
  pass does nothing. A pass that runs (flag not set) turns the sessions collection into
  the one where every record carrying inline audio has \<open>has_audio\<close> true and the
  inline field cleared; a later pass over the result changes nothing in the store even
  with the flag reset; and, ids being distinct, the payload of each such record with a
  non-empty id is then read back from the blob cache.
\<close>

theorem migration_idempotent:
  "migration_pass (migration_pass pw) = migration_pass pw \<and>
   legacyAudioMigrationDone (fst (migration_pass pw)) \<and>
   (legacyAudioMigrationDone (fst pw) \<longrightarrow> migration_pass pw = pw) \<and>
   (\<not> legacyAudioMigrationDone (fst pw) \<longrightarrow>
      sessions (snd (migration_pass pw))
        = map (\<lambda>s. if carries_audio s then migrate_one s else s) (sessions (snd pw)) \<and>
      snd (migration_pass (p', snd (migration_pass pw))) = snd (migration_pass pw) \<and>
      (distinct (map id_session (sessions (snd pw))) \<longrightarrow>
         (\<forall>s \<in> set (sessions (snd pw)). carries_audio s \<and> truthy (id_session s) \<longrightarrow>
            loadSessionAudioBlob (id_session s) (snd (migration_pass pw)) = audio_base64 s)))"
proof -
  have a: "migration_pass (migration_pass pw) = migration_pass pw"
    by (rule pass_done [OF pass_flag])
  have b: "snd (migration_pass (p', snd (migration_pass pw))) = snd (migration_pass pw)"
    if n: "\<not> legacyAudioMigrationDone (fst pw)"
  proof (rule pass_clean)
    show "\<forall>s \<in> set (sessions (snd (migration_pass pw))). \<not> carries_audio s"
      by (auto simp: pass_sessions [OF n])
  qed
  from a b pass_flag pass_done pass_sessions pass_audio show ?thesis by blast
qed

lemma pass_legacy:
  "migration_pass (p_fresh, w_legacy) = (p_fresh\<lparr>legacyAudioMigrationDone := True\<rparr>, w_migrated)"
  by (simp add: migration_pass_def migrateLegacySessionAudio_def w_legacy_def ex_legacy_def
        p_fresh_def persistSessionAudioBlob_def truthy_def migrate_one_def w_done_def
        w_migrated_def ex_done_def ex_session_def)

theorem migration_idempotent_witness:
  "\<not> legacyAudioMigrationDone (fst (p_fresh, w_legacy)) \<and>
   distinct (map id_session (sessions (snd (p_fresh, w_legacy)))) \<and>
   ex_legacy \<in> set (sessions (snd (p_fresh, w_legacy))) \<and>
   carries_audio ex_legacy \<and> truthy (id_session ex_legacy) \<and>
   migration_pass (p_fresh, w_legacy) = (p_fresh\<lparr>legacyAudioMigrationDone := True\<rparr>, w_migrated) \<and>
   migration_pass (migration_pass (p_fresh, w_legacy)) = migration_pass (p_fresh, w_legacy) \<and>
   snd (migration_pass (p_fresh, snd (migration_pass (p_fresh, w_legacy)))) = w_migrated \<and>
   loadSessionAudioBlob ''s1'' w_migrated = Some ''QUJD'' \<and>
   legacyAudioMigrationDone (fst (migration_pass (p_fresh, w_legacy))) \<and>
   migration_pass (p_fresh\<lparr>legacyAudioMigrationDone := True\<rparr>, w_legacy)
     = (p_fresh\<lparr>legacyAudioMigrationDone := True\<rparr>, w_legacy)"
proof -
  have h: "\<not> legacyAudioMigrationDone (fst (p_fresh, w_legacy))"
    "distinct (map id_session (sessions (snd (p_fresh, w_legacy))))"
    "ex_legacy \<in> set (sessions (snd (p_fresh, w_legacy)))"
    "carries_audio ex_legacy" "truthy (id_session ex_legacy)"
    "audio_base64 ex_legacy = Some ''QUJD''" "id_session ex_legacy = ''s1''"
    by (simp_all add: p_fresh_def w_legacy_def ex_legacy_def carries_audio_def truthy_def
          ex_done_def ex_session_def)
  have g: "legacyAudioMigrationDone (fst (p_fresh\<lparr>legacyAudioMigrationDone := True\<rparr>, w_legacy))"
    by simp
  note t1 = migration_idempotent [of "(p_fresh, w_legacy)" p_fresh]
  note t2 = migration_idempotent [of "(p_fresh\<lparr>legacyAudioMigrationDone := True\<rparr>, w_legacy)" p_fresh]
  from t1 h have c1:
    "migration_pass (migration_pass (p_fresh, w_legacy)) = migration_pass (p_fresh, w_legacy)"
    "legacyAudioMigrationDone (fst (migration_pass (p_fresh, w_legacy)))"
    "snd (migration_pass (p_fresh, snd (migration_pass (p_fresh, w_legacy))))
       = snd (migration_pass (p_fresh, w_legacy))"
    "loadSessionAudioBlob (id_session ex_legacy) (snd (migration_pass (p_fresh, w_legacy)))
       = audio_base64 ex_legacy"
    by blast+
  from t2 g have c2: "migration_pass (p_fresh\<lparr>legacyAudioMigrationDone := True\<rparr>, w_legacy)
     = (p_fresh\<lparr>legacyAudioMigrationDone := True\<rparr>, w_legacy)"
    by blast
  from h c1 c2 pass_legacy show ?thesis by simp
qed

subsection \<open>A capture attempt without any audio track\<close>

lemma find_append_fresh:
  "\<forall>x \<in> set xs. \<not> P x \<Longrightarrow> P y \<Longrightarrow> find P (xs @ [y]) = Some y"
  by (induction xs) simp_all

lemma find_map_same:
  "(\<And>x. P (f x) = P x) \<Longrightarrow> find P (map f xs) = map_option f (find P xs)"
  by (induction xs) simp_all

lemma status_migration_pass:
  "map_option status (getSessionById i (snd (migration_pass pw)))
     = map_option status (getSessionById i (snd pw))"
proof (cases "legacyAudioMigrationDone (fst pw)")
  case True
  then show ?thesis by (simp add: pass_done)
next
  case False
  have "find (\<lambda>s. id_session s = i)
          (map (\<lambda>s. if carries_audio s then migrate_one s else s) (sessions (snd pw)))
        = map_option (\<lambda>s. if carries_audio s then migrate_one s else s)
            (find (\<lambda>s. id_session s = i) (sessions (snd pw)))"
    by (rule find_map_same) (simp add: migrate_one_def)
  then show ?thesis
    by (simp add: getSessionById_def pass_sessions [OF False] option.map_comp comp_def
          migrate_one_def if_distrib [of status] cong: if_cong)
qed

lemma active_migration_pass:
  "activeSessionId (snd (migration_pass pw)) = activeSessionId (snd pw)"
proof -
  obtain p w where pw: "pw = (p, w)" by (cases pw)
  from migrate_loop_frame [of "sessions w" w] pw show ?thesis
    by (simp add: migration_pass_def migrateLegacySessionAudio_def Let_def case_prod_beta)
qed

lemma snd_refreshSessions: "snd (refreshSessions pw) = snd (migration_pass pw)"
  by (simp add: refreshSessions_def Let_def case_prod_beta)

lemma recorder_refreshSessions: "recorder (fst (refreshSessions pw)) = recorder (fst pw)"
  by (cases pw)
     (simp add: refreshSessions_def migration_pass_def migrateLegacySessionAudio_def Let_def
        case_prod_beta)

lemma start_then_get:
  assumes "uuid_session ent \<notin> set (map id_session (sessions w))"
  shows "getSessionById (uuid_session ent) (snd (onMessage e ent START_RECORDING w))
           = Some (newSessionMeta ent (fst (getUserProfile ent w)))"
proof -
  from assms have "\<forall>x \<in> set (sessions w). \<not> id_session x = uuid_session ent" by force
  then show ?thesis
    by (simp add: getSessionById_def sessions_start find_append_fresh newSessionMeta_def)
qed


lemma stop_recording_body:
  "activeSessionId w = Some a \<Longrightarrow> truthy a \<Longrightarrow> getSessionById a w = Some s \<Longrightarrow>
     fst (onMessage e ent STOP_RECORDING w) = RespOkSession a \<and>
     activeSessionId (snd (onMessage e ent STOP_RECORDING w)) = None \<and>
     getSessionById a (snd (onMessage e ent STOP_RECORDING w)) = Some (s\<lparr>status := Processing\<rparr>)"
  by (simp add: handleStopRecording_def Let_def get_updateSession_same audio_part_def
        apply_rest_def empty_patch_def)

lemma stop_after_start:
  assumes t: "truthy (uuid_session ent)"
    and f: "uuid_session ent \<notin> set (map id_session (sessions w))"
    and w1: "w1 = snd (onMessage e ent START_RECORDING w)"
  shows "fst (onMessage e' ent' STOP_RECORDING w1) = RespOkSession (uuid_session ent) \<and>
         activeSessionId (snd (onMessage e' ent' STOP_RECORDING w1)) = None \<and>
         map_option status (getSessionById (uuid_session ent) (snd (onMessage e' ent' STOP_RECORDING w1)))
           = Some Processing"
proof -
  have a: "activeSessionId w1 = Some (uuid_session ent)"
    unfolding w1 by (simp add: active_start)
  from start_then_get [OF f, of e] w1
  have g: "getSessionById (uuid_session ent) w1 = Some (newSessionMeta ent (fst (getUserProfile ent w)))"
    by simp
  from stop_recording_body [OF a t g, of e' ent'] show ?thesis
    by (simp add: newSessionMeta_def)
qed

text \<open>
  Claim C9. The popup is not recording and the user clicks the record button; the
  worker answers the start with a fresh session id. The microphone gives no audio
  track (it is refused, or its stream has none). When the display stream has no audio
  track either, the popup first shows the no-audio error, while the session is still
  recording; it then stops every track it acquired and sends the stop command, which
  moves the session to processing and clears the active session. When the display
  stream is refused, no track was acquired; the popup shows the error and sends the
  stop command. In both cases no recorder is created and no submit-for-analysis
  message is sent.
\<close>

theorem no_audio_capture_aborts:
  assumes nr: "\<not> isRecording p"
    and t: "truthy (uuid_session ent)"
    and f: "uuid_session ent \<notin> set (map id_session (sessions w))"
    and mic: "getUserMedia md = Rejected merr \<or> getUserMedia md = Granted []"
    and run: "run = recordClick e ent md (p, w)"
    and sid: "sid = uuid_session ent"
  shows
   "map_option status (getSessionById sid (snd (onMessage e ent START_RECORDING w))) = Some Recording \<and>
    (\<forall>d. getDisplayMedia md = Granted d \<and> d_audio d = [] \<longrightarrow>
       fst run = [Sent START_RECORDING (RespOkSession sid), Alert NO_AUDIO_SOURCE_ALERT] @
                 map TrackStopped (display_tracks d) @
                 [Sent STOP_RECORDING (RespOkSession sid)] \<and>
       \<not> list_ex is_submit (fst run) \<and>
       recorder (fst (snd run)) = recorder p \<and>
       activeSessionId (snd (snd run)) = None \<and>
       map_option status (getSessionById sid (snd (snd run))) = Some Processing) \<and>
    (\<forall>err. getDisplayMedia md = Rejected err \<longrightarrow>
       fst run = [Sent START_RECORDING (RespOkSession sid),
                  Alert (if err_name err = ''NotAllowedError'' then ACCESS_DENIED_ALERT
                         else ERROR_ALERT_PREFIX @ error_text err),
                  Sent STOP_RECORDING (RespOkSession sid)] \<and>
       \<not> list_ex is_submit (fst run) \<and>
       recorder (fst (snd run)) = recorder p \<and>
       activeSessionId (snd (snd run)) = None \<and>
       map_option status (getSessionById sid (snd (snd run))) = Some Processing)"
proof -
  define w1 where "w1 = snd (onMessage e ent START_RECORDING w)"
  have st: "onMessage e ent START_RECORDING w = (RespOkSession sid, w1)"
    unfolding w1_def sid
    by (simp add: handleStartRecording_def Let_def newSessionMeta_def case_prod_beta)
  note sp = stop_after_start [OF t f w1_def, of e ent, folded sid]
  obtain r w2 where stp: "onMessage e ent STOP_RECORDING w1 = (r, w2)"
    by (cases "onMessage e ent STOP_RECORDING w1") auto
  with sp have r: "r = RespOkSession sid" and w2: "activeSessionId w2 = None"
    "map_option status (getSessionById sid w2) = Some Processing" by simp_all
  have fin: "activeSessionId (snd (refreshSessions (q, w2))) = None \<and>
     map_option status (getSessionById sid (snd (refreshSessions (q, w2)))) = Some Processing \<and>
     recorder (fst (refreshSessions (q, w2))) = recorder q" for q
    using w2 status_migration_pass [of sid "(q, w2)"] active_migration_pass [of "(q, w2)"]
    by (simp add: snd_refreshSessions recorder_refreshSessions)
  have micnone: "(case (case getUserMedia md of Granted ts \<Rightarrow> Some ts | Rejected err \<Rightarrow> None) of
                    Some ts \<Rightarrow> ts | None \<Rightarrow> []) = []"
    "\<not> (case (case getUserMedia md of Granted ts \<Rightarrow> Some ts | Rejected err \<Rightarrow> None) of
                    Some ts \<Rightarrow> ts \<noteq> [] | None \<Rightarrow> False)"
    using mic by auto
  have a: "map_option status (getSessionById sid (snd (onMessage e ent START_RECORDING w))) = Some Recording"
    using start_then_get [OF f, of e] by (simp add: sid newSessionMeta_def)
  have b: "fst run = [Sent START_RECORDING (RespOkSession sid), Alert NO_AUDIO_SOURCE_ALERT] @
                 map TrackStopped (display_tracks d) @
                 [Sent STOP_RECORDING (RespOkSession sid)] \<and>
       \<not> list_ex is_submit (fst run) \<and>
       recorder (fst (snd run)) = recorder p \<and>
       activeSessionId (snd (snd run)) = None \<and>
       map_option status (getSessionById sid (snd (snd run))) = Some Processing"
    if d: "getDisplayMedia md = Granted d \<and> d_audio d = []" for d
  proof -
    let ?q = "p\<lparr>currentSessionId := Some sid,
        micStreamRef := (case getUserMedia md of Granted ts \<Rightarrow> Some ts | Rejected err \<Rightarrow> None),
        displayStreamRef := Some d\<rparr>"
    have "run = (Sent START_RECORDING (RespOkSession sid) #
                 ([Alert NO_AUDIO_SOURCE_ALERT] @ map TrackStopped (display_tracks d) @
                  [Sent STOP_RECORDING r]),
                 refreshSessions (?q, w2))"
      using nr t d micnone st stp
      by (simp add: run recordClick_def captureAfterStart_def Let_def sid [symmetric]
            case_prod_beta)
    with r fin [of ?q] show ?thesis
      by (simp add: list_ex_iff is_submit_def image_iff)
  qed
  have c: "fst run = [Sent START_RECORDING (RespOkSession sid),
                  Alert (if err_name err = ''NotAllowedError'' then ACCESS_DENIED_ALERT
                         else ERROR_ALERT_PREFIX @ error_text err),
                  Sent STOP_RECORDING (RespOkSession sid)] \<and>
       \<not> list_ex is_submit (fst run) \<and>
       recorder (fst (snd run)) = recorder p \<and>
       activeSessionId (snd (snd run)) = None \<and>
       map_option status (getSessionById sid (snd (snd run))) = Some Processing"
    if d: "getDisplayMedia md = Rejected err" for err
  proof -
    let ?q = "p\<lparr>currentSessionId := Some sid,
        micStreamRef := (case getUserMedia md of Granted ts \<Rightarrow> Some ts | Rejected err \<Rightarrow> None)\<rparr>"
    have "run = ([Sent START_RECORDING (RespOkSession sid),
                  Alert (if err_name err = ''NotAllowedError'' then ACCESS_DENIED_ALERT
                         else ERROR_ALERT_PREFIX @ error_text err),
                  Sent STOP_RECORDING r],
                 refreshSessions (?q, w2))"
      using nr t d st stp
      by (simp add: run recordClick_def captureAfterStart_def Let_def sid [symmetric]
            case_prod_beta)
    with r fin [of ?q] show ?thesis
      by (simp add: is_submit_def)
  qed
  from a b c show ?thesis by blast
qed

theorem no_audio_capture_aborts_witness:
  "\<not> isRecording p_fresh \<and> truthy (uuid_session ex_ent) \<and>
   uuid_session ex_ent \<notin> set (map id_session (sessions init_worker)) \<and>
   getUserMedia md_silent = Rejected (JsError ''NotFoundError'' ''Requested device not found'') \<and>
   getDisplayMedia md_silent = Granted \<lparr>d_video = [''v1''], d_audio = []\<rparr> \<and>
   map_option status (getSessionById ''s1'' (snd (onMessage ex_env ex_ent START_RECORDING init_worker)))
     = Some Recording \<and>
   fst (recordClick ex_env ex_ent md_silent (p_fresh, init_worker))
     = [Sent START_RECORDING (RespOkSession ''s1''), Alert NO_AUDIO_SOURCE_ALERT,
        TrackStopped ''v1'', Sent STOP_RECORDING (RespOkSession ''s1'')] \<and>
   \<not> list_ex is_submit (fst (recordClick ex_env ex_ent md_silent (p_fresh, init_worker))) \<and>
   map_option status (getSessionById ''s1''
      (snd (snd (recordClick ex_env ex_ent md_silent (p_fresh, init_worker))))) = Some Processing \<and>
   getUserMedia md_denied = Granted [] \<and>
   getDisplayMedia md_denied = Rejected (JsError ''NotAllowedError'' ''Permission denied'') \<and>
   fst (recordClick ex_env ex_ent md_denied (p_fresh, init_worker))
     = [Sent START_RECORDING (RespOkSession ''s1''), Alert ACCESS_DENIED_ALERT,
        Sent STOP_RECORDING (RespOkSession ''s1'')] \<and>
   \<not> list_ex is_submit (fst (recordClick ex_env ex_ent md_denied (p_fresh, init_worker)))"
proof -
  have h: "\<not> isRecording p_fresh" "truthy (uuid_session ex_ent)"
    "uuid_session ex_ent \<notin> set (map id_session (sessions init_worker))"
    "uuid_session ex_ent = ''s1''"
    by (simp_all add: p_fresh_def ex_ent_def truthy_def init_worker_def)
  have m1: "getUserMedia md_silent = Rejected (JsError ''NotFoundError'' ''Requested device not found'')"
    "getDisplayMedia md_silent = Granted \<lparr>d_video = [''v1''], d_audio = []\<rparr>"
    by (simp_all add: md_silent_def)
  have m2: "getUserMedia md_denied = Granted []"
    "getDisplayMedia md_denied = Rejected (JsError ''NotAllowedError'' ''Permission denied'')"
    by (simp_all add: md_denied_def)
  note t1 = no_audio_capture_aborts [OF h(1,2,3) disjI1 [OF m1(1)] refl h(4) [symmetric], of ex_env]
  note t2 = no_audio_capture_aborts [OF h(1,2,3) disjI2 [OF m2(1)] refl h(4) [symmetric], of ex_env]
  from t1 m1(2) have c1:
    "map_option status (getSessionById ''s1'' (snd (onMessage ex_env ex_ent START_RECORDING init_worker)))
     = Some Recording"
    "fst (recordClick ex_env ex_ent md_silent (p_fresh, init_worker))
     = [Sent START_RECORDING (RespOkSession ''s1''), Alert NO_AUDIO_SOURCE_ALERT,
        TrackStopped ''v1'', Sent STOP_RECORDING (RespOkSession ''s1'')]"
    "\<not> list_ex is_submit (fst (recordClick ex_env ex_ent md_silent (p_fresh, init_worker)))"
    "map_option status (getSessionById ''s1''
      (snd (snd (recordClick ex_env ex_ent md_silent (p_fresh, init_worker))))) = Some Processing"
    by (simp_all add: display_tracks_def is_submit_def)
  from t2 m2(2) have c2:
    "fst (recordClick ex_env ex_ent md_denied (p_fresh, init_worker))
     = [Sent START_RECORDING (RespOkSession ''s1''), Alert ACCESS_DENIED_ALERT,
        Sent STOP_RECORDING (RespOkSession ''s1'')]"
    "\<not> list_ex is_submit (fst (recordClick ex_env ex_ent md_denied (p_fresh, init_worker)))"
    by (simp_all add: is_submit_def)
  from h m1 m2 c1 c2 show ?thesis by simp
qed

subsection \<open>Regeneration from the report viewer without audio\<close>

lemma w_done_has_no_audio:
  "audio_base64 ex_done = None \<and> loadSessionAudioBlob ''s1'' w_done = None \<and>
   fetchSessionAudioFromBackend ex_env (user_id ex_done) ''s1'' = None"
  by (simp add: loadSessionAudioBlob_def w_done_def fetchSessionAudioFromBackend_def ex_env_def
        ex_done_def ex_session_def truthy_def)

text \<open>
  Claim C3, on the code. The report viewer's regenerate button sends
  \<open>PROCESS_SESSION_AUDIO\<close> with the session id and \<open>isRegeneration: true\<close> and no
  audio; the worker never reads that flag. In the store \<open>w_done\<close> (reachable by
  \<open>reachable_w_done\<close>) the session is done, has a report, and its audio is in neither
  the cache nor the remote store (\<open>w_done_has_no_audio\<close>). The worker answers \<open>ok\<close>, and the job then overwrites the session: its
  status becomes failed and its report is replaced by the no-audio message.
\<close>

theorem viewer_regenerate_without_audio:
  "getSessionById ''s1'' w_done = Some ex_done \<and>
   status ex_done = Done \<and> session_report ex_done = Some ''## Summary'' \<and>
   fst (onMessage ex_env ex_ent (PROCESS_SESSION_AUDIO ex_regen) w_done) = RespOk \<and>
   getSessionById ''s1'' (snd (onMessage ex_env ex_ent (PROCESS_SESSION_AUDIO ex_regen) w_done))
     = Some (ex_done\<lparr>status := Failed, session_report := Some NO_AUDIO_REPORT\<rparr>)"
proof -
  have "processSessionAudioJob ex_env ex_regen w_done
      = updateSession ''s1'' (failed_patch NO_AUDIO_REPORT) w_done"
    by (simp add: processSessionAudioJob_def prepareJob_def ex_regen_def get_w_done ensure_w_done)
  then show ?thesis
    by (simp add: handleProcessSessionAudio_def ex_regen_def truthy_def get_w_done
          get_updateSession_same failed_patch_def apply_rest_def audio_part_def empty_patch_def
          ex_done_def)
qed

subsection \<open>Regeneration from the popup without audio\<close>

text \<open>The popup's own regeneration rejects a session without audio and writes
  nothing: the path that the report viewer's button does not take.\<close>

lemma popup_regenerate_rejects:
  assumes "getSessionById sid w = Some s"
    and "\<not> truthy_opt (audio_base64 s)"
    and "loadSessionAudioBlob (id_session s) w = None"
    and "fetchSessionAudioFromBackend_popup e s = None"
  shows "regenerateSession e ent sid (p, w) = ([Alert AUDIO_UNAVAILABLE_ALERT], p, w)"
  using assms by (simp add: regenerateSession_def resolveSessionAudio_def)

lemma popup_regenerate_rejects_ex:
  "regenerateSession ex_env ex_ent ''s1'' (p_fresh, w_done) = ([Alert AUDIO_UNAVAILABLE_ALERT], p_fresh, w_done)"
  by (rule popup_regenerate_rejects [OF get_w_done])
     (simp_all add: ex_done_def ex_session_def loadSessionAudioBlob_def w_done_def
        fetchSessionAudioFromBackend_popup_def ex_env_def truthy_def)

end
